theory Spec2Isabelle
  imports Main
begin

section \<open>Decoded JSON values and Python strings\<close>

text \<open>
  The functions of \<^verbatim>\<open>github_mcp_example.py\<close> that normalise a tool response work on
  values produced by \<^verbatim>\<open>json.loads\<close>. A Python \<^verbatim>\<open>str\<close> is a sequence of Unicode code
  points, modelled as a list of naturals; \<open>py_str\<close> turns an ASCII literal of the source
  into that representation. A \<^verbatim>\<open>dict\<close> is an association list read with \<open>map_of\<close>
  (the code only tests membership and subscripts by key, it never iterates over a dict).
\<close>

type_synonym pystr = "nat list"

definition py_str :: "string \<Rightarrow> pystr" where
  "py_str s = map of_char s"

datatype json =
    JNull
  | JBool bool
  | JInt int
  | JFloat pystr
  | JStr pystr
  | JList "json list"
  | JDict "(pystr \<times> json) list"

text \<open>
  \<open>JFloat t\<close> stands for a Python \<^verbatim>\<open>float\<close>, given by the text \<^verbatim>\<open>json.dumps\<close> writes for it
  (\<^verbatim>\<open>float.__repr__\<close>, or \<^verbatim>\<open>NaN\<close>, \<^verbatim>\<open>Infinity\<close>, \<^verbatim>\<open>-Infinity\<close>); no function below compares or
  computes with a number. The keys of a \<^verbatim>\<open>dict\<close> are distinct and stand in insertion order.
\<close>

text \<open>
  The exceptions the library calls of the source can raise. All of them are subclasses of
  \<^verbatim>\<open>Exception\<close>: \<^verbatim>\<open>except Exception\<close> and a bare \<^verbatim>\<open>except\<close> catch every one,
  \<^verbatim>\<open>except json.JSONDecodeError\<close> catches \<open>JSONDecodeError\<close> only.
\<close>

datatype py_exn =
    TypeError
  | AttributeError
  | KeyError
  | ValueError
  | JSONDecodeError
  | BinasciiError
  | UnicodeDecodeError
  | RecursionError
  | MarkupError

text \<open>
  \<^verbatim>\<open>json.loads(x)\<close>: the parser itself is a parameter \<open>parse\<close> of the model. On a \<^verbatim>\<open>str\<close>
  it returns the value or raises: \<^verbatim>\<open>json.JSONDecodeError\<close> on a text that is no JSON
  document, but also \<^verbatim>\<open>ValueError\<close> on an integer literal of more than 4300 digits and
  \<^verbatim>\<open>RecursionError\<close> on deep nesting, so \<open>parse\<close> may give any exception. A value that is
  not a \<^verbatim>\<open>str\<close> raises \<^verbatim>\<open>TypeError\<close>.
\<close>

type_synonym parser = "pystr \<Rightarrow> py_exn + json"

definition json_loads :: "parser \<Rightarrow> json \<Rightarrow> py_exn + json" where
  "json_loads parse v = (case v of JStr s \<Rightarrow> parse s | _ \<Rightarrow> Inl TypeError)"

section \<open>\<^verbatim>\<open>extract_repos_from_response\<close>\<close>

text \<open>
  \<^verbatim>\<open>isinstance(item, dict) and "full_name" in item\<close>
\<close>

definition looks_like_repo :: "json \<Rightarrow> bool" where
  "looks_like_repo item =
     (case item of JDict d \<Rightarrow> map_of d (py_str ''full_name'') \<noteq> None | _ \<Rightarrow> False)"

text \<open>
  \<^verbatim>\<open>k in d and isinstance(d[k], list)\<close>, giving \<^verbatim>\<open>d[k]\<close> when the test holds.
\<close>

definition list_field :: "(pystr \<times> json) list \<Rightarrow> pystr \<Rightarrow> json list option" where
  "list_field d k = (case map_of d k of Some (JList xs) \<Rightarrow> Some xs | _ \<Rightarrow> None)"

text \<open>
  The body of the \<^verbatim>\<open>try\<close> inside the loop of format 3, after \<^verbatim>\<open>data = json.loads(...)\<close>:
  \<open>Some xs\<close> is \<^verbatim>\<open>return xs\<close>, \<open>None\<close> is falling out of the \<^verbatim>\<open>if\<close> chain.
\<close>

definition repos_from_parsed :: "json \<Rightarrow> json list option" where
  "repos_from_parsed data =
     (case data of
        JDict m \<Rightarrow>
          (case list_field m (py_str ''items'') of
             Some xs \<Rightarrow> Some xs
           | None \<Rightarrow>
               (case list_field m (py_str ''repositories'') of
                  Some xs \<Rightarrow> Some xs
                | None \<Rightarrow> list_field m (py_str ''data'')))
      | JList xs \<Rightarrow> if list_all looks_like_repo (take 3 xs) then Some xs else None
      | _ \<Rightarrow> None)"

text \<open>
  One iteration of \<^verbatim>\<open>for item in response_data["content"]\<close>. The bare \<^verbatim>\<open>except: pass\<close>
  turns every exception of \<^verbatim>\<open>json.loads(item["text"])\<close> into "this item yields nothing".
\<close>

definition repos_from_item :: "parser \<Rightarrow> json \<Rightarrow> json list option" where
  "repos_from_item parse item =
     (case item of
        JDict i \<Rightarrow>
          (case map_of i (py_str ''text'') of
             Some t \<Rightarrow>
               (case json_loads parse t of
                  Inr data \<Rightarrow> repos_from_parsed data
                | Inl e \<Rightarrow> None)
           | None \<Rightarrow> None)
      | _ \<Rightarrow> None)"

fun repos_from_content :: "parser \<Rightarrow> json list \<Rightarrow> json list option" where
  "repos_from_content parse [] = None"
| "repos_from_content parse (item # rest) =
     (case repos_from_item parse item of
        Some xs \<Rightarrow> Some xs
      | None \<Rightarrow> repos_from_content parse rest)"

text \<open>
  The whole function. The \<^verbatim>\<open>data\<close> test hangs on the \<^verbatim>\<open>content\<close> test with \<^verbatim>\<open>elif\<close>: it
  is reached only when \<^verbatim>\<open>content\<close> is missing or not a list. Every path ends in a
  \<^verbatim>\<open>return\<close>, so the result is always \<open>Inr\<close>.
\<close>

definition extract_repos_from_response ::
  "parser \<Rightarrow> json \<Rightarrow> py_exn + json list" where
  "extract_repos_from_response parse response_data =
     (case response_data of
        JList xs \<Rightarrow>
          if list_all looks_like_repo (take 3 xs) then Inr xs else Inr []
      | JDict d \<Rightarrow>
          (case list_field d (py_str ''items'') of
             Some xs \<Rightarrow> Inr xs
           | None \<Rightarrow>
               (case list_field d (py_str ''repositories'') of
                  Some xs \<Rightarrow> Inr xs
                | None \<Rightarrow>
                    (case list_field d (py_str ''content'') of
                       Some cs \<Rightarrow>
                         (case repos_from_content parse cs of
                            Some xs \<Rightarrow> Inr xs
                          | None \<Rightarrow> Inr [])
                     | None \<Rightarrow>
                         (case list_field d (py_str ''data'') of
                            Some xs \<Rightarrow> Inr xs
                          | None \<Rightarrow> Inr []))))
      | _ \<Rightarrow> Inr [])"

section \<open>Python string operations\<close>

text \<open>
  \<^verbatim>\<open>s.startswith(p)\<close> and \<^verbatim>\<open>sub in s\<close> on strings.
\<close>

definition startswith :: "pystr \<Rightarrow> pystr \<Rightarrow> bool" where
  "startswith s p = (take (length p) s = p)"

fun py_contains :: "pystr \<Rightarrow> pystr \<Rightarrow> bool" where
  "py_contains sub [] = (sub = [])"
| "py_contains sub (c # cs) = (startswith (c # cs) sub \<or> py_contains sub cs)"

text \<open>
  \<^verbatim>\<open>s.replace(old, new)\<close>: the occurrences of \<open>old\<close> are replaced from left to right
  without overlap; an empty \<open>old\<close> matches before every character and at the end.
\<close>

function py_replace :: "pystr \<Rightarrow> pystr \<Rightarrow> pystr \<Rightarrow> pystr" where
  "py_replace old new [] = (if old = [] then new else [])"
| "py_replace old new (c # cs) =
     (if old = [] then new @ c # py_replace old new cs
      else if startswith (c # cs) old
        then new @ py_replace old new (drop (length old) (c # cs))
        else c # py_replace old new cs)"
  by pat_completeness auto
termination
  by (relation "measure (\<lambda>(old, new, s). length s)") auto

text \<open>
  The characters \<^verbatim>\<open>str.isspace\<close> accepts: they are what \<^verbatim>\<open>str.strip()\<close> removes and what
  \<^verbatim>\<open>\s\<close> matches in a pattern over \<^verbatim>\<open>str\<close>.
\<close>

definition py_isspace :: "nat \<Rightarrow> bool" where
  "py_isspace c =
     ((9 \<le> c \<and> c \<le> 13) \<or> (28 \<le> c \<and> c \<le> 32) \<or> c = 133 \<or> c = 160 \<or> c = 5760
      \<or> (8192 \<le> c \<and> c \<le> 8202) \<or> c = 8232 \<or> c = 8233 \<or> c = 8239 \<or> c = 8287
      \<or> c = 12288)"

definition py_strip :: "pystr \<Rightarrow> pystr" where
  "py_strip s = rev (dropWhile py_isspace (rev (dropWhile py_isspace s)))"

text \<open>
  \<^verbatim>\<open>item["text"].replace("\n", "").replace("\\n", "").strip()\<close>: the first literal is the
  newline character, the second a backslash followed by \<^verbatim>\<open>n\<close>. A value that is not a
  \<^verbatim>\<open>str\<close> has no \<^verbatim>\<open>replace\<close>.
\<close>

definition escaped_newline :: pystr where
  "escaped_newline = [92, 110]"

definition clean_text :: "json \<Rightarrow> py_exn + pystr" where
  "clean_text t =
     (case t of
        JStr s \<Rightarrow> Inr (py_strip (py_replace escaped_newline [] (py_replace [10] [] s)))
      | _ \<Rightarrow> Inl AttributeError)"

section \<open>The pattern \<^verbatim>\<open>"content"\s*:\s*"([^"]+)"\<close>\<close>

text \<open>
  \<open>match_content_at s\<close> matches the pattern at the start of \<open>s\<close> and gives group 1.
  Each repetition is taken greedily. Backtracking cannot find a match the greedy choice
  misses: \<^verbatim>\<open>\s*\<close> is followed by \<^verbatim>\<open>:\<close> or \<^verbatim>\<open>"\<close>, which are not white space, and
  \<^verbatim>\<open>[^"]+\<close> is followed by \<^verbatim>\<open>"\<close>, so a shorter repetition leaves a character the next
  literal does not match. \<^verbatim>\<open>[^"]\<close> accepts every character but the quote, newlines too.
\<close>

definition match_content_at :: "pystr \<Rightarrow> pystr option" where
  \<open>match_content_at s =
     (if startswith s (py_str ''"content"'') then
        (case dropWhile py_isspace (drop 9 s) of
           [] \<Rightarrow> None
         | c # s2 \<Rightarrow>
             if c = 58 then
               (case dropWhile py_isspace s2 of
                  [] \<Rightarrow> None
                | q # s4 \<Rightarrow>
                    if q = 34 then
                      (let g = takeWhile (\<lambda>c. c \<noteq> 34) s4;
                           s5 = dropWhile (\<lambda>c. c \<noteq> 34) s4
                       in if g \<noteq> [] \<and> s5 \<noteq> [] then Some g else None)
                    else None)
             else None)
      else None)\<close>

text \<open>
  \<^verbatim>\<open>re.search\<close> tries the start positions from left to right; the result is group 1 of
  the first match. A subject that is not a \<^verbatim>\<open>str\<close> raises \<^verbatim>\<open>TypeError\<close>.
\<close>

fun search_content :: "pystr \<Rightarrow> pystr option" where
  "search_content [] = match_content_at []"
| "search_content (c # cs) =
     (case match_content_at (c # cs) of
        Some g \<Rightarrow> Some g
      | None \<Rightarrow> search_content cs)"

definition re_search_content :: "json \<Rightarrow> py_exn + pystr option" where
  "re_search_content raw_text =
     (case raw_text of JStr s \<Rightarrow> Inr (search_content s) | _ \<Rightarrow> Inl TypeError)"

section \<open>\<^verbatim>\<open>base64.b64decode(x).decode("utf-8")\<close>\<close>

text \<open>
  The value of a character of the base64 alphabet (\<^verbatim>\<open>A-Z a-z 0-9 + /\<close>), \<open>None\<close> for
  every other character.
\<close>

definition b64_value :: "nat \<Rightarrow> nat option" where
  "b64_value c =
     (if 65 \<le> c \<and> c \<le> 90 then Some (c - 65)
      else if 97 \<le> c \<and> c \<le> 122 then Some (c - 71)
      else if 48 \<le> c \<and> c \<le> 57 then Some (c + 4)
      else if c = 43 then Some 62
      else if c = 47 then Some 63
      else None)"

definition emit :: "nat \<Rightarrow> py_exn + nat list \<Rightarrow> py_exn + nat list" where
  "emit b r = (case r of Inl e \<Rightarrow> Inl e | Inr bs \<Rightarrow> Inr (b # bs))"

text \<open>
  \<^verbatim>\<open>binascii.a2b_base64\<close> as \<^verbatim>\<open>b64decode\<close> calls it (not strict), following CPython 3.11:
  characters outside the alphabet are skipped; a \<^verbatim>\<open>=\<close> that completes a quad of at
  least two data characters ends the input; data that ends inside a quad is an error.
  The state is the position in the quad, the bits left over, and the pads counted.
\<close>

fun a2b_base64 :: "nat \<Rightarrow> nat \<Rightarrow> nat \<Rightarrow> nat list \<Rightarrow> py_exn + nat list" where
  "a2b_base64 quad_pos leftchar pads [] =
     (if quad_pos = 0 then Inr [] else Inl BinasciiError)"
| "a2b_base64 quad_pos leftchar pads (c # cs) =
     (if c = 61 then
        (if 2 \<le> quad_pos \<and> 4 \<le> quad_pos + (pads + 1) then Inr []
         else a2b_base64 quad_pos leftchar (if 2 \<le> quad_pos then pads + 1 else pads) cs)
      else
        (case b64_value c of
           None \<Rightarrow> a2b_base64 quad_pos leftchar pads cs
         | Some v \<Rightarrow>
             if quad_pos = 0 then a2b_base64 1 v 0 cs
             else if quad_pos = 1 then
               emit ((leftchar * 4 + v div 16) mod 256) (a2b_base64 2 (v mod 16) 0 cs)
             else if quad_pos = 2 then
               emit ((leftchar * 16 + v div 4) mod 256) (a2b_base64 3 (v mod 4) 0 cs)
             else
               emit ((leftchar * 64 + v) mod 256) (a2b_base64 0 0 0 cs)))"

text \<open>
  \<^verbatim>\<open>base64.b64decode(x)\<close>: a \<^verbatim>\<open>str\<close> is first encoded as ASCII (\<^verbatim>\<open>ValueError\<close> when it
  has a character beyond 127); a decoded JSON value that is not a \<^verbatim>\<open>str\<close> is no
  bytes-like object (\<^verbatim>\<open>TypeError\<close>).
\<close>

definition b64decode :: "json \<Rightarrow> py_exn + nat list" where
  "b64decode x =
     (case x of
        JStr s \<Rightarrow> if list_all (\<lambda>c. c < 128) s then a2b_base64 0 0 0 s else Inl ValueError
      | _ \<Rightarrow> Inl TypeError)"

text \<open>
  \<^verbatim>\<open>bytes.decode("utf-8")\<close> with strict error handling: the well-formed sequences of
  one to four bytes; overlong forms, surrogates and values beyond U+10FFFF are errors.
\<close>

definition is_cont :: "nat \<Rightarrow> bool" where
  "is_cont b = (128 \<le> b \<and> b < 192)"

definition decoded :: "nat \<Rightarrow> py_exn + pystr \<Rightarrow> py_exn + pystr" where
  "decoded cp r = (case r of Inl e \<Rightarrow> Inl e | Inr s \<Rightarrow> Inr (cp # s))"

fun utf8_decode :: "nat list \<Rightarrow> py_exn + pystr" where
  "utf8_decode [] = Inr []"
| "utf8_decode [b0] =
     (if b0 < 128 then Inr [b0] else Inl UnicodeDecodeError)"
| "utf8_decode [b0, b1] =
     (if b0 < 128 then decoded b0 (utf8_decode [b1])
      else if 194 \<le> b0 \<and> b0 < 224 \<and> is_cont b1
        then Inr [(b0 - 192) * 64 + (b1 - 128)]
      else Inl UnicodeDecodeError)"
| "utf8_decode [b0, b1, b2] =
     (if b0 < 128 then decoded b0 (utf8_decode [b1, b2])
      else if 194 \<le> b0 \<and> b0 < 224 \<and> is_cont b1
        then decoded ((b0 - 192) * 64 + (b1 - 128)) (utf8_decode [b2])
      else if 224 \<le> b0 \<and> b0 < 240 \<and> is_cont b1 \<and> is_cont b2
            \<and> 2048 \<le> (b0 - 224) * 4096 + (b1 - 128) * 64 + (b2 - 128)
            \<and> \<not> (55296 \<le> (b0 - 224) * 4096 + (b1 - 128) * 64 + (b2 - 128)
                 \<and> (b0 - 224) * 4096 + (b1 - 128) * 64 + (b2 - 128) < 57344)
        then Inr [(b0 - 224) * 4096 + (b1 - 128) * 64 + (b2 - 128)]
      else Inl UnicodeDecodeError)"
| "utf8_decode (b0 # b1 # b2 # b3 # bs) =
     (if b0 < 128 then decoded b0 (utf8_decode (b1 # b2 # b3 # bs))
      else if 194 \<le> b0 \<and> b0 < 224 \<and> is_cont b1
        then decoded ((b0 - 192) * 64 + (b1 - 128)) (utf8_decode (b2 # b3 # bs))
      else if 224 \<le> b0 \<and> b0 < 240 \<and> is_cont b1 \<and> is_cont b2
            \<and> 2048 \<le> (b0 - 224) * 4096 + (b1 - 128) * 64 + (b2 - 128)
            \<and> \<not> (55296 \<le> (b0 - 224) * 4096 + (b1 - 128) * 64 + (b2 - 128)
                 \<and> (b0 - 224) * 4096 + (b1 - 128) * 64 + (b2 - 128) < 57344)
        then decoded ((b0 - 224) * 4096 + (b1 - 128) * 64 + (b2 - 128)) (utf8_decode (b3 # bs))
      else if 240 \<le> b0 \<and> b0 < 245 \<and> is_cont b1 \<and> is_cont b2 \<and> is_cont b3
            \<and> 65536 \<le> (b0 - 240) * 262144 + (b1 - 128) * 4096 + (b2 - 128) * 64 + (b3 - 128)
            \<and> (b0 - 240) * 262144 + (b1 - 128) * 4096 + (b2 - 128) * 64 + (b3 - 128) < 1114112
        then decoded ((b0 - 240) * 262144 + (b1 - 128) * 4096 + (b2 - 128) * 64 + (b3 - 128))
               (utf8_decode bs)
      else Inl UnicodeDecodeError)"

definition b64decode_utf8 :: "json \<Rightarrow> py_exn + pystr" where
  "b64decode_utf8 x = (case b64decode x of Inl e \<Rightarrow> Inl e | Inr bs \<Rightarrow> utf8_decode bs)"

section \<open>\<^verbatim>\<open>json.dumps(x, indent=2)\<close>\<close>

text \<open>
  The text the function prints for debugging. With \<^verbatim>\<open>indent=2\<close> the items of a list or a
  dict stand on lines of their own, two spaces deeper per level, separated by a comma;
  a key and its value are separated by a colon and a space; empty containers are
  \<^verbatim>\<open>[]\<close> and \<^verbatim>\<open>{}\<close>. Strings are written in ASCII (\<^verbatim>\<open>ensure_ascii\<close>): the quote and the
  backslash are escaped, a character outside \<^verbatim>\<open>' '..'~'\<close> becomes its short escape or
  \<^verbatim>\<open>\uXXXX\<close>, as a surrogate pair beyond U+FFFF.
\<close>

definition hex_digit :: "nat \<Rightarrow> nat" where
  "hex_digit n = (if n < 10 then 48 + n else 87 + n)"

definition u_escape :: "nat \<Rightarrow> pystr" where
  "u_escape n =
     [92, 117, hex_digit (n div 4096 mod 16), hex_digit (n div 256 mod 16),
      hex_digit (n div 16 mod 16), hex_digit (n mod 16)]"

definition escape_char :: "nat \<Rightarrow> pystr" where
  "escape_char c =
     (if c = 92 then [92, 92]
      else if c = 34 then [92, 34]
      else if c = 8 then [92, 98]
      else if c = 12 then [92, 102]
      else if c = 10 then [92, 110]
      else if c = 13 then [92, 114]
      else if c = 9 then [92, 116]
      else if 32 \<le> c \<and> c \<le> 126 then [c]
      else if c < 65536 then u_escape c
      else u_escape (55296 + (c - 65536) div 1024 mod 1024)
             @ u_escape (56320 + (c - 65536) mod 1024))"

definition encode_basestring_ascii :: "pystr \<Rightarrow> pystr" where
  "encode_basestring_ascii s = 34 # concat (map escape_char s) @ [34]"

function nat_repr :: "nat \<Rightarrow> pystr" where
  "nat_repr n = (if n < 10 then [48 + n] else nat_repr (n div 10) @ [48 + n mod 10])"
  by pat_completeness auto
termination
  by (relation "measure id") auto

definition int_repr :: "int \<Rightarrow> pystr" where
  "int_repr i = (if i < 0 then 45 # nat_repr (nat (- i)) else nat_repr (nat i))"

fun join_with :: "pystr \<Rightarrow> pystr list \<Rightarrow> pystr" where
  "join_with sep [] = []"
| "join_with sep [x] = x"
| "join_with sep (x # y # ys) = x @ sep @ join_with sep (y # ys)"

definition newline_indent :: "nat \<Rightarrow> pystr" where
  "newline_indent level = 10 # replicate (2 * level) 32"

fun dumps_at :: "nat \<Rightarrow> json \<Rightarrow> pystr" where
  "dumps_at level JNull = py_str ''null''"
| "dumps_at level (JBool b) = (if b then py_str ''true'' else py_str ''false'')"
| "dumps_at level (JInt i) = int_repr i"
| "dumps_at level (JFloat t) = t"
| "dumps_at level (JStr s) = encode_basestring_ascii s"
| "dumps_at level (JList xs) =
     (if xs = [] then py_str ''[]''
      else 91 # newline_indent (Suc level)
             @ join_with (44 # newline_indent (Suc level)) (map (dumps_at (Suc level)) xs)
             @ newline_indent level @ [93])"
| "dumps_at level (JDict d) =
     (if d = [] then py_str ''{}''
      else 123 # newline_indent (Suc level)
             @ join_with (44 # newline_indent (Suc level))
                 (map (\<lambda>(k, v). encode_basestring_ascii k @ py_str '': '' @ dumps_at (Suc level) v) d)
             @ newline_indent level @ [125])"

definition json_dumps :: "json \<Rightarrow> pystr" where
  "json_dumps v = dumps_at 0 v"

section \<open>\<^verbatim>\<open>console.print\<close> of a string\<close>

text \<open>
  \<^verbatim>\<open>console\<close> is a \<^verbatim>\<open>rich\<close> console: a printed \<^verbatim>\<open>str\<close> is console markup, and
  \<^verbatim>\<open>rich.markup.render\<close> (rich 13) raises \<^verbatim>\<open>MarkupError\<close> on a closing tag that closes
  nothing. This rendering is what is modelled of a print; the replacement of emoji
  codes, the highlighting and the write to the terminal come after it and are not.

  A tag is a match of \<^verbatim>\<open>(\\*)\[([a-z#/@][^[]*?)]\<close>: backslashes, an opening bracket, a
  lower-case letter or one of \<^verbatim>\<open>#/@\<close>, and the shortest text without an opening bracket
  up to a closing bracket. \<open>match_tag s\<close> matches at the start of \<open>s\<close> and gives the
  number of backslashes, the text of the tag and the length of the match.
\<close>

definition tag_start :: "nat \<Rightarrow> bool" where
  "tag_start c = ((97 \<le> c \<and> c \<le> 122) \<or> c = 35 \<or> c = 47 \<or> c = 64)"

definition match_tag :: "pystr \<Rightarrow> (nat \<times> pystr \<times> nat) option" where
  "match_tag s =
     (let escapes = length (takeWhile (\<lambda>c. c = 92) s) in
      case drop escapes s of
        bracket # c0 # r \<Rightarrow>
          if bracket = 91 \<and> tag_start c0 then
            (let body = takeWhile (\<lambda>c. c \<noteq> 93 \<and> c \<noteq> 91) r in
             case drop (length body) r of
               closing # _ \<Rightarrow>
                 if closing = 93 then Some (escapes, c0 # body, escapes + length body + 3)
                 else None
             | [] \<Rightarrow> None)
          else None
      | _ \<Rightarrow> None)"

text \<open>
  \<^verbatim>\<open>RE_TAGS.finditer\<close>: the matches from left to right without overlap; \<open>skip\<close> counts the
  characters of the last match still to pass. A match after an odd number of
  backslashes is an escaped tag and is plain text; the others are the tags.
\<close>

fun scan_tags :: "nat \<Rightarrow> pystr \<Rightarrow> pystr list" where
  "scan_tags skip [] = []"
| "scan_tags skip (c # cs) =
     (if 0 < skip then scan_tags (skip - 1) cs
      else
        (case match_tag (c # cs) of
           None \<Rightarrow> scan_tags 0 cs
         | Some (escapes, tag_text, len) \<Rightarrow>
             if even escapes then tag_text # scan_tags (len - 1) cs
             else scan_tags (len - 1) cs))"

text \<open>
  \<^verbatim>\<open>tag_text.partition("=")\<close>: the name of the tag, and its parameters when there is an
  equals sign.
\<close>

definition partition_equals :: "pystr \<Rightarrow> pystr \<times> pystr option" where
  "partition_equals tag_text =
     (let name = takeWhile (\<lambda>c. c \<noteq> 61) tag_text in
      case drop (length name) tag_text of
        [] \<Rightarrow> (name, None)
      | _ # parameters \<Rightarrow> (name, Some parameters))"

text \<open>
  The stack of open tags, the last opened first. \<open>pop_style\<close> removes the tag nearest
  to the top that has the given name (\<open>None\<close> is the \<^verbatim>\<open>KeyError\<close> of the source).
\<close>

fun pop_style :: "pystr \<Rightarrow> (pystr \<times> pystr option) list
    \<Rightarrow> ((pystr \<times> pystr option) \<times> (pystr \<times> pystr option) list) option" where
  "pop_style style_name [] = None"
| "pop_style style_name (tag # stack) =
     (if fst tag = style_name then Some (tag, stack)
      else
        (case pop_style style_name stack of
           None \<Rightarrow> None
         | Some (found, stack') \<Rightarrow> Some (found, tag # stack')))"

text \<open>
  Two library functions stay parameters: \<open>norm_style\<close> is \<^verbatim>\<open>Style.normalize\<close>, the normal
  form of a style name, and \<open>literal_ok\<close> says whether the parameters of a closed
  \<^verbatim>\<open>@\<close> handler tag evaluate (\<^verbatim>\<open>literal_eval\<close>); when they do not, the source raises
  \<^verbatim>\<open>MarkupError\<close> as well.
\<close>

definition handler_fails :: "(pystr \<Rightarrow> bool) \<Rightarrow> pystr \<times> pystr option \<Rightarrow> bool" where
  "handler_fails literal_ok open_tag =
     (case snd open_tag of
        None \<Rightarrow> False
      | Some parameters \<Rightarrow>
          parameters \<noteq> [] \<and> startswith (fst open_tag) [64] \<and> \<not> literal_ok parameters)"

text \<open>
  The loop of \<^verbatim>\<open>render\<close> over the tags: \<open>True\<close> when it raises \<^verbatim>\<open>MarkupError\<close>. A name that
  starts with a slash closes: the named tag, or with an empty name the last opened
  one. Any other tag is opened.
\<close>

fun render_tags :: "(pystr \<Rightarrow> pystr) \<Rightarrow> (pystr \<Rightarrow> bool) \<Rightarrow> (pystr \<times> pystr option) list
    \<Rightarrow> pystr list \<Rightarrow> bool" where
  "render_tags norm_style literal_ok style_stack [] = False"
| "render_tags norm_style literal_ok style_stack (tag_text # tags) =
     (case partition_equals tag_text of
        (name, parameters) \<Rightarrow>
          if startswith name [47] then
            (if py_strip (tl name) \<noteq> [] then
               (case pop_style (norm_style (py_strip (tl name))) style_stack of
                  None \<Rightarrow> True
                | Some (open_tag, stack') \<Rightarrow>
                    if handler_fails literal_ok open_tag then True
                    else render_tags norm_style literal_ok stack' tags)
             else
               (case style_stack of
                  [] \<Rightarrow> True
                | open_tag # stack' \<Rightarrow>
                    if handler_fails literal_ok open_tag then True
                    else render_tags norm_style literal_ok stack' tags))
          else render_tags norm_style literal_ok ((norm_style name, parameters) # style_stack) tags)"

definition markup_error :: "(pystr \<Rightarrow> pystr) \<Rightarrow> (pystr \<Rightarrow> bool) \<Rightarrow> pystr \<Rightarrow> bool" where
  "markup_error norm_style literal_ok markup =
     render_tags norm_style literal_ok [] (scan_tags 0 markup)"

definition console_print :: "(pystr \<Rightarrow> pystr) \<Rightarrow> (pystr \<Rightarrow> bool) \<Rightarrow> pystr \<Rightarrow> py_exn + unit" where
  "console_print norm_style literal_ok markup =
     (if markup_error norm_style literal_ok markup then Inl MarkupError else Inr ())"

section \<open>Decoding a file result\<close>

text \<open>
  \<^verbatim>\<open>extract_file_content\<close> and the decoding part of \<^verbatim>\<open>get_readme_content\<close> work on the
  \<^verbatim>\<open>result\<close> field of a response. The variable \<^verbatim>\<open>file_content\<close> (\<^verbatim>\<open>decoded_content\<close> in
  the README code) is \<^verbatim>\<open>None\<close> or a \<^verbatim>\<open>str\<close>; \<^verbatim>\<open>not file_content\<close> holds for \<^verbatim>\<open>None\<close> and
  for the empty string.

  Two prints of \<^verbatim>\<open>extract_file_content\<close> show text of the response, the dump of the
  result at lines 611 and 695; they stand outside every \<^verbatim>\<open>try\<close> and are part of the model.
  Every other print shows a fixed text between \<^verbatim>\<open>[dim]\<close> (or another fixed style) and
  \<^verbatim>\<open>[/]\<close>, some with the message of a caught exception in between; the messages of the
  exceptions raised here hold no bracket, so these prints render, and they are left
  out (\<open>fixed_prints_render\<close> below evaluates the fixed texts).
\<close>

definition py_not :: "pystr option \<Rightarrow> bool" where
  "py_not v = (v = None \<or> v = Some [])"

text \<open>
  \<^verbatim>\<open>x[k]\<close> guarded by \<^verbatim>\<open>isinstance(x, dict) and k in x\<close>: \<open>None\<close> when the guard fails.
\<close>

definition dict_get :: "json \<Rightarrow> pystr \<Rightarrow> json option" where
  "dict_get x k = (case x of JDict d \<Rightarrow> map_of d k | _ \<Rightarrow> None)"

text \<open>
  \<^verbatim>\<open>isinstance(result, dict) and "content" in result and isinstance(result["content"], list)\<close>
\<close>

definition content_list :: "json \<Rightarrow> json list option" where
  "content_list result =
     (case dict_get result (py_str ''content'') of Some (JList items) \<Rightarrow> Some items | _ \<Rightarrow> None)"

subsection \<open>The pattern approach (lines 613-646, and 324-362 for the README)\<close>

text \<open>
  One iteration of the loop over \<^verbatim>\<open>result["content"]\<close>: \<open>Some s\<close> is the assignment of
  the decoded text followed by \<^verbatim>\<open>break\<close>; \<open>None\<close> goes on with the next item. Both
  \<^verbatim>\<open>except Exception\<close> handlers only print.
\<close>

definition regex_item :: "json \<Rightarrow> pystr option" where
  "regex_item item =
     (case dict_get item (py_str ''text'') of
        None \<Rightarrow> None
      | Some raw_text \<Rightarrow>
          (case re_search_content raw_text of
             Inl e \<Rightarrow> None
           | Inr None \<Rightarrow> None
           | Inr (Some base64_data) \<Rightarrow>
               (case b64decode_utf8 (JStr (py_replace escaped_newline [] base64_data)) of
                  Inl e \<Rightarrow> None
                | Inr s \<Rightarrow> Some s)))"

fun regex_items :: "json list \<Rightarrow> pystr option" where
  "regex_items [] = None"
| "regex_items (item # rest) =
     (case regex_item item of Some s \<Rightarrow> Some s | None \<Rightarrow> regex_items rest)"

definition regex_phase :: "json \<Rightarrow> pystr option" where
  "regex_phase result =
     (case content_list result of Some items \<Rightarrow> regex_items items | None \<Rightarrow> None)"

subsection \<open>Format 1: \<^verbatim>\<open>content\<close> directly in the result\<close>

text \<open>
  Entered when \<^verbatim>\<open>isinstance(result, dict) and "content" in result\<close>. Only a \<^verbatim>\<open>str\<close> is
  decoded; a failure is printed and leaves the variable as it was (\<open>cur\<close>).
\<close>

definition format1 :: "json \<Rightarrow> pystr option \<Rightarrow> pystr option" where
  "format1 result cur =
     (case dict_get result (py_str ''content'') of
        Some (JStr s) \<Rightarrow>
          (case b64decode_utf8 (JStr s) of Inl e \<Rightarrow> cur | Inr t \<Rightarrow> Some t)
      | _ \<Rightarrow> cur)"

subsection \<open>Format 2: the result is a list of items with a \<^verbatim>\<open>text\<close> field\<close>

text \<open>
  The \<^verbatim>\<open>try\<close> body shared by the loops: clean the text, parse it, and decode the
  \<^verbatim>\<open>content\<close> field of a parsed dict. \<open>Inr (Some s)\<close> is assignment and \<^verbatim>\<open>break\<close>,
  \<open>Inr None\<close> is a parsed value without \<^verbatim>\<open>content\<close>, \<open>Inl e\<close> an exception raised by
  one of the calls.
\<close>

definition decode_item_text :: "parser \<Rightarrow> json \<Rightarrow> py_exn + pystr option" where
  "decode_item_text parse t =
     (case clean_text t of
        Inl e \<Rightarrow> Inl e
      | Inr text \<Rightarrow>
          (case json_loads parse (JStr text) of
             Inl e \<Rightarrow> Inl e
           | Inr content_json \<Rightarrow>
               (case dict_get content_json (py_str ''content'') of
                  None \<Rightarrow> Inr None
                | Some c \<Rightarrow>
                    (case b64decode_utf8 c of Inl e \<Rightarrow> Inl e | Inr s \<Rightarrow> Inr (Some s)))))"

text \<open>
  The handler of \<^verbatim>\<open>extract_file_content\<close> (lines 676-690): a text that starts with a
  brace or bracket is parsed again, unchanged, and pretty-printed by
  \<^verbatim>\<open>json.dumps(..., indent=2)\<close>; \<^verbatim>\<open>json.JSONDecodeError\<close> is the only exception the inner
  \<^verbatim>\<open>try\<close> catches, any other that \<^verbatim>\<open>json.loads\<close> raises leaves the function.
\<close>

definition file_handler ::
  "parser \<Rightarrow> json \<Rightarrow> py_exn + pystr option" where
  "file_handler parse t =
     (case t of
        JStr s \<Rightarrow>
          if startswith s (py_str ''{'') \<or> startswith s (py_str ''['') then
            (case json_loads parse (JStr s) of
               Inr v \<Rightarrow> Inr (Some (json_dumps v))
             | Inl e \<Rightarrow> if e = JSONDecodeError then Inr (Some s) else Inl e)
          else Inr None
      | _ \<Rightarrow> Inr None)"

fun file_items ::
  "parser \<Rightarrow> json list \<Rightarrow> py_exn + pystr option" where
  "file_items parse [] = Inr None"
| "file_items parse (item # rest) =
     (case dict_get item (py_str ''text'') of
        None \<Rightarrow> file_items parse rest
      | Some t \<Rightarrow>
          (case decode_item_text parse t of
             Inr (Some s) \<Rightarrow> Inr (Some s)
           | Inr None \<Rightarrow> file_items parse rest
           | Inl e \<Rightarrow>
               (case file_handler parse t of
                  Inl e' \<Rightarrow> Inl e'
                | Inr (Some s) \<Rightarrow> Inr (Some s)
                | Inr None \<Rightarrow> file_items parse rest)))"

text \<open>
  The same loop in \<^verbatim>\<open>get_readme_content\<close> (lines 382-406): its handler only prints.
\<close>

fun readme_items :: "parser \<Rightarrow> json list \<Rightarrow> pystr option" where
  "readme_items parse [] = None"
| "readme_items parse (item # rest) =
     (case dict_get item (py_str ''text'') of
        None \<Rightarrow> readme_items parse rest
      | Some t \<Rightarrow>
          (case decode_item_text parse t of
             Inr (Some s) \<Rightarrow> Some s
           | Inr None \<Rightarrow> readme_items parse rest
           | Inl e \<Rightarrow> readme_items parse rest))"

subsection \<open>Format 3 of the README code: a \<^verbatim>\<open>content\<close> array in the result (lines 408-448)\<close>

text \<open>
  The \<^verbatim>\<open>try\<close> body also takes a parsed value that is a \<^verbatim>\<open>str\<close> as the content; the
  handler takes the raw text when it contains \<^verbatim>\<open>"# "\<close> or \<^verbatim>\<open>"## "\<close>.
\<close>

definition nested_item_text :: "parser \<Rightarrow> json \<Rightarrow> py_exn + pystr option" where
  "nested_item_text parse t =
     (case clean_text t of
        Inl e \<Rightarrow> Inl e
      | Inr text \<Rightarrow>
          (case json_loads parse (JStr text) of
             Inl e \<Rightarrow> Inl e
           | Inr content_json \<Rightarrow>
               (case dict_get content_json (py_str ''content'') of
                  Some c \<Rightarrow>
                    (case b64decode_utf8 c of Inl e \<Rightarrow> Inl e | Inr s \<Rightarrow> Inr (Some s))
                | None \<Rightarrow>
                    (case content_json of JStr s \<Rightarrow> Inr (Some s) | _ \<Rightarrow> Inr None))))"

definition markdown_handler :: "json \<Rightarrow> pystr option" where
  "markdown_handler t =
     (case t of
        JStr s \<Rightarrow>
          if py_contains (py_str ''# '') s \<or> py_contains (py_str ''## '') s then Some s
          else None
      | _ \<Rightarrow> None)"

fun nested_items :: "parser \<Rightarrow> json list \<Rightarrow> pystr option" where
  "nested_items parse [] = None"
| "nested_items parse (item # rest) =
     (case dict_get item (py_str ''text'') of
        None \<Rightarrow> nested_items parse rest
      | Some t \<Rightarrow>
          (case nested_item_text parse t of
             Inr (Some s) \<Rightarrow> Some s
           | Inr None \<Rightarrow> nested_items parse rest
           | Inl e \<Rightarrow>
               (case markdown_handler t of
                  Some s \<Rightarrow> Some s
                | None \<Rightarrow> nested_items parse rest)))"

subsection \<open>The two decoders\<close>

text \<open>
  The decoding steps of \<^verbatim>\<open>extract_file_content\<close> (lines 613-690): the pattern approach,
  then, if that left nothing, format 1 or else format 2. The result is the value of
  \<^verbatim>\<open>file_content\<close> at line 692, or the exception that left the handler of format 2.
\<close>

definition decode_file_content :: "parser \<Rightarrow> json \<Rightarrow> py_exn + pystr option" where
  "decode_file_content parse result =
     (let file_content = regex_phase result in
      if py_not file_content then
        (if dict_get result (py_str ''content'') \<noteq> None then
           Inr (format1 result file_content)
         else
           (case result of
              JList (x # xs) \<Rightarrow>
                (case file_items parse (x # xs) of
                   Inl e \<Rightarrow> Inl e
                 | Inr (Some s) \<Rightarrow> Inr (Some s)
                 | Inr None \<Rightarrow> Inr file_content)
            | _ \<Rightarrow> Inr file_content))
      else Inr file_content)"

text \<open>
  \<^verbatim>\<open>extract_file_content\<close> from \<^verbatim>\<open>result = valid_file["result"]\<close> on (lines 606-697): the
  debug print of the first 300 characters of the dump, the decoding steps, and, when
  they left nothing, the print of the dump again, this time without \<^verbatim>\<open>[dim]\<close> around it.
\<close>

definition debug_markup :: "json \<Rightarrow> pystr" where
  "debug_markup result =
     py_str ''[dim]Debug raw result: '' @ take 300 (json_dumps result) @ py_str ''...[/]''"

definition structure_markup :: "json \<Rightarrow> pystr" where
  "structure_markup result = take 300 (json_dumps result) @ py_str ''...''"

definition file_content_of_result ::
  "parser \<Rightarrow> (pystr \<Rightarrow> pystr) \<Rightarrow> (pystr \<Rightarrow> bool) \<Rightarrow> json \<Rightarrow> py_exn + pystr option" where
  "file_content_of_result parse norm_style literal_ok result =
     (case console_print norm_style literal_ok (debug_markup result) of
        Inl e \<Rightarrow> Inl e
      | Inr u \<Rightarrow>
          (case decode_file_content parse result of
             Inl e \<Rightarrow> Inl e
           | Inr file_content \<Rightarrow>
               if py_not file_content then
                 (case console_print norm_style literal_ok (structure_markup result) of
                    Inl e \<Rightarrow> Inl e
                  | Inr u \<Rightarrow> Inr file_content)
               else Inr file_content))"

text \<open>
  The value of \<^verbatim>\<open>decoded_content\<close> when \<^verbatim>\<open>get_readme_content\<close> reaches its display code
  (line 450), from \<^verbatim>\<open>result = valid_file["result"]\<close> on (line 321). The chain is \<^verbatim>\<open>if\<close>
  format 1, \<^verbatim>\<open>elif\<close> format 2, \<^verbatim>\<open>elif\<close> format 3, in this order, each with the test the
  source writes. Between these lines only fixed texts and messages of caught exceptions
  are printed.
\<close>

definition readme_decoded_content :: "parser \<Rightarrow> json \<Rightarrow> pystr option" where
  "readme_decoded_content parse result =
     (let decoded_content = regex_phase result in
      if py_not decoded_content then
        (if dict_get result (py_str ''content'') \<noteq> None then
           format1 result decoded_content
         else
           (case result of
              JList (x # xs) \<Rightarrow>
                (case readme_items parse (x # xs) of
                   Some s \<Rightarrow> Some s
                 | None \<Rightarrow> decoded_content)
            | _ \<Rightarrow>
                (case content_list result of
                   Some items \<Rightarrow>
                     (case nested_items parse items of
                        Some s \<Rightarrow> Some s
                      | None \<Rightarrow> decoded_content)
                 | None \<Rightarrow> decoded_content)))
      else decoded_content)"

text \<open>
  The head of \<^verbatim>\<open>extract_file_content\<close> (lines 596-606). \<^verbatim>\<open>file_result\<close> is what
  \<^verbatim>\<open>run_mcp_command\<close> returns: \<^verbatim>\<open>None\<close> or the list of the parsed response lines.
  \<^verbatim>\<open>"result" in r\<close> is a key test on a dict, a substring test on a \<^verbatim>\<open>str\<close>, a membership
  test on a list and a \<^verbatim>\<open>TypeError\<close> on anything else; \<^verbatim>\<open>valid_file["result"]\<close> needs a
  dict.
\<close>

definition result_in :: "json \<Rightarrow> py_exn + bool" where
  "result_in r =
     (case r of
        JDict d \<Rightarrow> Inr (map_of d (py_str ''result'') \<noteq> None)
      | JStr s \<Rightarrow> Inr (py_contains (py_str ''result'') s)
      | JList xs \<Rightarrow> Inr (JStr (py_str ''result'') \<in> set xs)
      | _ \<Rightarrow> Inl TypeError)"

fun first_with_result :: "json list \<Rightarrow> py_exn + json option" where
  "first_with_result [] = Inr None"
| "first_with_result (r # rs) =
     (case result_in r of
        Inl e \<Rightarrow> Inl e
      | Inr True \<Rightarrow> Inr (Some r)
      | Inr False \<Rightarrow> first_with_result rs)"

definition extract_file_content ::
  "parser \<Rightarrow> (pystr \<Rightarrow> pystr) \<Rightarrow> (pystr \<Rightarrow> bool) \<Rightarrow> json list option
    \<Rightarrow> py_exn + pystr option" where
  "extract_file_content parse norm_style literal_ok file_result =
     (case file_result of
        None \<Rightarrow> Inr None
      | Some [] \<Rightarrow> Inr None
      | Some (r # rs) \<Rightarrow>
          (case first_with_result (r # rs) of
             Inl e \<Rightarrow> Inl e
           | Inr None \<Rightarrow> Inr None
           | Inr (Some valid_file) \<Rightarrow>
               (case valid_file of
                  JDict d \<Rightarrow>
                    (case map_of d (py_str ''result'') of
                       None \<Rightarrow> Inl KeyError
                     | Some result \<Rightarrow>
                         file_content_of_result parse norm_style literal_ok result)
                | _ \<Rightarrow> Inl TypeError)))"

section \<open>Encoding, and a parser for the examples\<close>

text \<open>
  What \<^verbatim>\<open>base64.b64encode(s.encode("utf-8")).decode("ascii")\<close> computes: the UTF-8 bytes
  of the code points, and their base64 text in the standard alphabet with \<^verbatim>\<open>=\<close> padding.
  The decoders above are stated against these.
\<close>

definition utf8_encode_char :: "nat \<Rightarrow> nat list" where
  "utf8_encode_char c =
     (if c < 128 then [c]
      else if c < 2048 then [192 + c div 64, 128 + c mod 64]
      else if c < 65536 then [224 + c div 4096, 128 + c div 64 mod 64, 128 + c mod 64]
      else [240 + c div 262144, 128 + c div 4096 mod 64, 128 + c div 64 mod 64, 128 + c mod 64])"

definition utf8_encode :: "pystr \<Rightarrow> nat list" where
  "utf8_encode s = concat (map utf8_encode_char s)"

definition b64_char :: "nat \<Rightarrow> nat" where
  "b64_char v =
     (if v < 26 then v + 65
      else if v < 52 then v + 71
      else if v < 62 then v - 4
      else if v = 62 then 43
      else 47)"

fun b64encode :: "nat list \<Rightarrow> pystr" where
  "b64encode [] = []"
| "b64encode [a] = [b64_char (a div 4), b64_char (a mod 4 * 16), 61, 61]"
| "b64encode [a, b] =
     [b64_char (a div 4), b64_char (a mod 4 * 16 + b div 16), b64_char (b mod 16 * 4), 61]"
| "b64encode (a # b # c # bs) =
     b64_char (a div 4) # b64_char (a mod 4 * 16 + b div 16)
       # b64_char (b mod 16 * 4 + c div 64) # b64_char (c mod 64) # b64encode bs"

text \<open>
  A Unicode scalar value: a code point that is not a surrogate. These are the code
  points UTF-8 encodes.
\<close>

definition scalar_value :: "nat \<Rightarrow> bool" where
  "scalar_value c = (c < 1114112 \<and> (c < 55296 \<or> 57344 \<le> c))"

text \<open>
  A parser for the examples: \<open>example_parse\<close> reads these texts as \<^verbatim>\<open>json.loads\<close> does. The
  last is an array holding one integer of 4301 digits, on which \<^verbatim>\<open>json.loads\<close> raises
  \<^verbatim>\<open>ValueError\<close> (the limit of integer string conversion). No example hands it another
  text that is a JSON document.
\<close>

definition huge_integer_text :: pystr where
  "huge_integer_text = 91 # replicate 4301 57 @ [93]"

definition example_parse :: parser where
  \<open>example_parse s =
     (if s = py_str ''{"repositories": [1]}''
        then Inr (JDict [(py_str ''repositories'', JList [JInt 1])])
      else if s = py_str ''{"items": [2]}''
        then Inr (JDict [(py_str ''items'', JList [JInt 2])])
      else if s = py_str ''[{"full_name": "x"}]''
        then Inr (JList [JDict [(py_str ''full_name'', JStr (py_str ''x''))]])
      else if s = huge_integer_text then Inl ValueError
      else Inl JSONDecodeError)\<close>

section \<open>What an item of a \<^verbatim>\<open>content\<close> sequence yields\<close>

text \<open>
  The records a parsed text exposes, in the words of the resolution order: for a
  mapping the sequence under \<^verbatim>\<open>items\<close>, else under \<^verbatim>\<open>repositories\<close>, else under \<^verbatim>\<open>data\<close>
  (each only when the field is there and is a sequence); for a sequence the sequence
  itself, when each of its first three elements is a mapping with the key \<^verbatim>\<open>full_name\<close>.
  An item yields \<open>xs\<close> when it is a mapping whose \<^verbatim>\<open>text\<close> is a string that parses to a
  value exposing \<open>xs\<close>.
\<close>

definition is_list_at :: "(pystr \<times> json) list \<Rightarrow> pystr \<Rightarrow> bool" where
  "is_list_at m k = (\<exists>ys. map_of m k = Some (JList ys))"

definition exposes :: "json \<Rightarrow> json list \<Rightarrow> bool" where
  "exposes v xs =
     ((\<exists>m. v = JDict m \<and>
         (map_of m (py_str ''items'') = Some (JList xs)
          \<or> \<not> is_list_at m (py_str ''items'')
              \<and> map_of m (py_str ''repositories'') = Some (JList xs)
          \<or> \<not> is_list_at m (py_str ''items'') \<and> \<not> is_list_at m (py_str ''repositories'')
              \<and> map_of m (py_str ''data'') = Some (JList xs)))
      \<or> v = JList xs
          \<and> (\<forall>x\<in>set (take 3 xs). \<exists>d. x = JDict d \<and> py_str ''full_name'' \<in> fst ` set d))"

definition item_yields :: "parser \<Rightarrow> json \<Rightarrow> json list \<Rightarrow> bool" where
  "item_yields parse item xs =
     (\<exists>i t v. item = JDict i \<and> map_of i (py_str ''text'') = Some (JStr t)
        \<and> parse t = Inr v \<and> exposes v xs)"

section \<open>Properties of \<^verbatim>\<open>extract_repos_from_response\<close>\<close>

lemma py_str_eq_iff [simp]: "py_str a = py_str b \<longleftrightarrow> a = b"
  by (simp add: py_str_def inj_map_eq_map inj_on_def)

lemma list_field_Some_iff: "list_field d k = Some xs \<longleftrightarrow> map_of d k = Some (JList xs)"
  by (simp add: list_field_def split: option.splits json.splits)

lemma list_field_None_iff: "list_field d k = None \<longleftrightarrow> \<not> is_list_at d k"
  by (simp add: list_field_def is_list_at_def split: option.splits json.splits)

lemma looks_like_repo_iff:
  "looks_like_repo x \<longleftrightarrow> (\<exists>d. x = JDict d \<and> py_str ''full_name'' \<in> fst ` set d)"
  by (cases x) (auto simp: looks_like_repo_def map_of_eq_None_iff)

lemma first_three_iff:
  "list_all looks_like_repo (take 3 xs)
   \<longleftrightarrow> (\<forall>x\<in>set (take 3 xs). \<exists>d. x = JDict d \<and> py_str ''full_name'' \<in> fst ` set d)"
  by (simp add: list_all_iff looks_like_repo_iff)

lemma repos_from_parsed_iff: "repos_from_parsed v = Some xs \<longleftrightarrow> exposes v xs"
proof (cases v)
  case (JDict m)
  show ?thesis
    unfolding JDict repos_from_parsed_def exposes_def
    by (auto simp: list_field_def is_list_at_def split: option.splits json.splits)
next
  case (JList ys)
  show ?thesis
    unfolding JList repos_from_parsed_def exposes_def
    by (auto simp: first_three_iff)
qed (simp_all add: repos_from_parsed_def exposes_def)

lemma repos_from_item_iff: "repos_from_item parse item = Some xs \<longleftrightarrow> item_yields parse item xs"
proof (cases item)
  case (JDict i)
  show ?thesis
  proof (cases "map_of i (py_str ''text'')")
    case None
    with JDict show ?thesis by (simp add: repos_from_item_def item_yields_def)
  next
    case (Some t)
    show ?thesis
    proof (cases t)
      case (JStr s)
      with JDict Some show ?thesis
        by (cases "parse s")
          (simp_all add: repos_from_item_def item_yields_def json_loads_def repos_from_parsed_iff)
    qed (use JDict Some in \<open>simp_all add: repos_from_item_def item_yields_def json_loads_def\<close>)
  qed
qed (simp_all add: repos_from_item_def item_yields_def)

lemma repos_from_item_None_iff:
  "repos_from_item parse item = None \<longleftrightarrow> (\<forall>ys. \<not> item_yields parse item ys)"
  using repos_from_item_iff [of parse item] by (cases "repos_from_item parse item") auto

lemma repos_from_content_append:
  assumes "\<forall>x\<in>set pre. repos_from_item parse x = None"
  shows "repos_from_content parse (pre @ rest) = repos_from_content parse rest"
  using assms by (induction pre) simp_all

text \<open>An item whose text does not parse yields nothing: the loop goes on.\<close>

lemma repos_from_item_unparsable:
  assumes "dict_get item (py_str ''text'') = Some t" and "json_loads parse t = Inl e"
  shows "repos_from_item parse item = None"
  using assms by (cases item) (simp_all add: repos_from_item_def dict_get_def)

text \<open>
  Without a \<^verbatim>\<open>content\<close> list (and without an \<^verbatim>\<open>items\<close> or \<^verbatim>\<open>repositories\<close> list) a
  \<^verbatim>\<open>data\<close> list is returned.
\<close>

lemma extract_repos_data:
  assumes "list_field d (py_str ''items'') = None"
    and "list_field d (py_str ''repositories'') = None"
    and "list_field d (py_str ''content'') = None"
    and "map_of d (py_str ''data'') = Some (JList xs)"
  shows "extract_repos_from_response parse (JDict d) = Inr xs"
  using assms by (simp add: extract_repos_from_response_def list_field_def)

text \<open>
  Claim C1. With a \<^verbatim>\<open>content\<close> field that is a sequence none of whose items produces
  records, a \<^verbatim>\<open>data\<close> sequence should be returned. On \<^verbatim>\<open>{"content": [], "data":
  [{"full_name": "a/b"}]}\<close> the function returns the empty list instead: the \<^verbatim>\<open>data\<close> test
  is an \<^verbatim>\<open>elif\<close> of the \<^verbatim>\<open>content\<close> test and is skipped whenever \<^verbatim>\<open>content\<close> is a list.
\<close>

theorem extract_repos_data_skipped:
  "extract_repos_from_response parse
     (JDict [(py_str ''content'', JList []),
             (py_str ''data'', JList [JDict [(py_str ''full_name'', JStr (py_str ''a/b''))]])])
   = Inr []"
  by (simp add: extract_repos_from_response_def list_field_def py_str_def)

text \<open>
  Claim C5, as amended. In a mapping without a sequence under \<^verbatim>\<open>items\<close> or \<^verbatim>\<open>repositories\<close>
  of its own and with a \<^verbatim>\<open>content\<close> sequence, the result is what the first item yields
  that yields anything. An item yields a sequence when it is a mapping whose \<^verbatim>\<open>text\<close> is
  a string that parses as JSON to a mapping with a sequence under \<^verbatim>\<open>items\<close>, else under
  \<^verbatim>\<open>repositories\<close>, else under \<^verbatim>\<open>data\<close> (that sequence), or to a sequence whose first three
  elements are mappings with the key \<^verbatim>\<open>full_name\<close> (the parsed sequence itself). The items
  before it, among them every item whose text fails to parse, yield nothing and are
  skipped. \<open>item_yields\<close> says this without the functions of the code.
\<close>

theorem extract_repos_content_first_yield:
  assumes "\<not> is_list_at d (py_str ''items'')"
    and "\<not> is_list_at d (py_str ''repositories'')"
    and "map_of d (py_str ''content'') = Some (JList (pre @ item # post))"
    and "\<forall>x\<in>set pre. \<forall>ys. \<not> item_yields parse x ys"
    and "item_yields parse item xs"
  shows "extract_repos_from_response parse (JDict d) = Inr xs"
proof -
  have "\<forall>x\<in>set pre. repos_from_item parse x = None"
    using assms(4) by (simp add: repos_from_item_None_iff)
  moreover have "repos_from_item parse item = Some xs"
    using assms(5) by (simp add: repos_from_item_iff)
  ultimately have "repos_from_content parse (pre @ item # post) = Some xs"
    by (simp add: repos_from_content_append)
  moreover have "list_field d (py_str ''content'') = Some (pre @ item # post)"
    using assms(3) by (simp add: list_field_Some_iff)
  moreover have "list_field d (py_str ''items'') = None" "list_field d (py_str ''repositories'') = None"
    using assms(1,2) by (simp_all add: list_field_None_iff)
  ultimately show ?thesis
    by (simp add: extract_repos_from_response_def)
qed

lemma huge_integer_text_head: "huge_integer_text = 91 # 57 # replicate 4300 57 @ [93]"
proof -
  have "replicate (Suc 4300) (57::nat) = 57 # replicate 4300 57"
    by (rule replicate_Suc)
  then have "replicate 4301 (57::nat) = 57 # replicate 4300 57"
    by simp
  then show ?thesis
    by (simp add: huge_integer_text_def)
qed

lemma example_parse_simps:
  \<open>example_parse (py_str ''{"repositories": [1]}'') = Inr (JDict [(py_str ''repositories'', JList [JInt 1])])\<close>
  \<open>example_parse (py_str ''{"items": [2]}'') = Inr (JDict [(py_str ''items'', JList [JInt 2])])\<close>
  \<open>example_parse (py_str ''[{"full_name": "x"}]'') = Inr (JList [JDict [(py_str ''full_name'', JStr (py_str ''x''))]])\<close>
  \<open>example_parse (py_str ''not json'') = Inl JSONDecodeError\<close>
  \<open>example_parse huge_integer_text = Inl ValueError\<close>
  by (simp_all add: example_parse_def huge_integer_text_head py_str_def)

theorem extract_repos_content_first_yield_witness:
  \<open>extract_repos_from_response example_parse
     (JDict [(py_str ''items'', JStr (py_str ''none'')),
             (py_str ''content'',
        JList [JInt 0,
               JDict [(py_str ''text'', JStr (py_str ''not json''))],
               JDict [(py_str ''text'', JInt 5)],
               JDict [(py_str ''text'', JStr (py_str ''[{"full_name": "x"}]''))],
               JDict [(py_str ''text'', JStr (py_str ''{"repositories": [1]}''))]])])
   = Inr [JDict [(py_str ''full_name'', JStr (py_str ''x''))]]
   \<and> extract_repos_from_response example_parse
     (JDict [(py_str ''content'',
        JList [JDict [(py_str ''text'', JStr (py_str ''{"repositories": [1]}''))],
               JDict [(py_str ''text'', JStr (py_str ''{"items": [2]}''))]])])
   = Inr [JInt 1]\<close>
  using extract_repos_content_first_yield
    [of \<open>[(py_str ''items'', JStr (py_str ''none'')),
          (py_str ''content'',
        JList [JInt 0,
               JDict [(py_str ''text'', JStr (py_str ''not json''))],
               JDict [(py_str ''text'', JInt 5)],
               JDict [(py_str ''text'', JStr (py_str ''[{"full_name": "x"}]''))],
               JDict [(py_str ''text'', JStr (py_str ''{"repositories": [1]}''))]])]\<close>
        \<open>[JInt 0, JDict [(py_str ''text'', JStr (py_str ''not json''))],
          JDict [(py_str ''text'', JInt 5)]]\<close>
        \<open>JDict [(py_str ''text'', JStr (py_str ''[{"full_name": "x"}]''))]\<close>
        \<open>[JDict [(py_str ''text'', JStr (py_str ''{"repositories": [1]}''))]]\<close>
        example_parse
        \<open>[JDict [(py_str ''full_name'', JStr (py_str ''x''))]]\<close>]
    extract_repos_content_first_yield
    [of \<open>[(py_str ''content'',
        JList [JDict [(py_str ''text'', JStr (py_str ''{"repositories": [1]}''))],
               JDict [(py_str ''text'', JStr (py_str ''{"items": [2]}''))]])]\<close>
        \<open>[]\<close>
        \<open>JDict [(py_str ''text'', JStr (py_str ''{"repositories": [1]}''))]\<close>
        \<open>[JDict [(py_str ''text'', JStr (py_str ''{"items": [2]}''))]]\<close>
        example_parse
        \<open>[JInt 1]\<close>]
  by (simp add: is_list_at_def repos_from_item_iff [symmetric] repos_from_item_def json_loads_def
      example_parse_simps repos_from_parsed_def list_field_def looks_like_repo_def)

text \<open>
  The claim as stated fails twice: a sequence under \<^verbatim>\<open>items\<close> in the envelope itself
  wins over the \<^verbatim>\<open>content\<close> items, and among the items the first that yields wins, not
  any item that exposes \<^verbatim>\<open>repositories\<close>.
\<close>

theorem extract_repos_content_counterexample:
  \<open>example_parse (py_str ''{"repositories": [1]}'')
     = Inr (JDict [(py_str ''repositories'', JList [JInt 1])])
   \<and> extract_repos_from_response example_parse
       (JDict [(py_str ''items'', JList []),
               (py_str ''content'',
                  JList [JDict [(py_str ''text'', JStr (py_str ''{"repositories": [1]}''))]])])
      = Inr []
   \<and> extract_repos_from_response example_parse
       (JDict [(py_str ''content'',
          JList [JDict [(py_str ''text'', JStr (py_str ''{"items": [2]}''))],
                 JDict [(py_str ''text'', JStr (py_str ''{"repositories": [1]}''))]])])
      = Inr [JInt 2]\<close>
  by (simp add: extract_repos_from_response_def list_field_def repos_from_item_def
      repos_from_parsed_def json_loads_def example_parse_simps)

text \<open>
  Claim C6. A mapping whose \<^verbatim>\<open>items\<close> field is a sequence: the result is exactly that
  sequence, the same elements in the same order, whatever else the mapping holds.
\<close>

theorem extract_repos_items:
  assumes "map_of d (py_str ''items'') = Some (JList xs)"
  shows "extract_repos_from_response parse (JDict d) = Inr xs"
proof -
  from assms have "list_field d (py_str ''items'') = Some xs"
    by (simp add: list_field_Some_iff)
  then show ?thesis
    by (simp add: extract_repos_from_response_def)
qed

theorem extract_repos_items_witness:
  "map_of [(py_str ''items'', JList [JInt 2, JInt 1])] (py_str ''items'') = Some (JList [JInt 2, JInt 1])
   \<and> extract_repos_from_response example_parse (JDict [(py_str ''items'', JList [JInt 2, JInt 1])])
       = Inr [JInt 2, JInt 1]"
  using extract_repos_items [of "[(py_str ''items'', JList [JInt 2, JInt 1])]" "[JInt 2, JInt 1]" example_parse]
  by simp

text \<open>
  Claim C10. For a sequence, the first three elements are tested, and no other: the
  whole sequence is returned as it is when each of them is a mapping with the key
  \<^verbatim>\<open>full_name\<close>, whatever stands after the third element, and the empty list is returned
  when one of them is no mapping or lacks that key. Nothing is tested in the empty
  sequence, which is returned.
\<close>

theorem extract_repos_list_first_three:
  "extract_repos_from_response parse (JList xs)
   = Inr (if (\<forall>x\<in>set (take 3 xs). \<exists>d. x = JDict d \<and> py_str ''full_name'' \<in> fst ` set d)
          then xs else [])"
proof -
  have "extract_repos_from_response parse (JList xs)
      = (if list_all looks_like_repo (take 3 xs) then Inr xs else Inr [])"
    by (simp add: extract_repos_from_response_def)
  also have "\<dots> = Inr (if list_all looks_like_repo (take 3 xs) then xs else [])"
    by (rule if_distrib [symmetric])
  finally show ?thesis
    by (simp only: first_three_iff)
qed

theorem extract_repos_list_first_three_witness:
  "extract_repos_from_response example_parse
     (JList [JDict [(py_str ''full_name'', JStr (py_str ''a/b''))],
             JDict [(py_str ''full_name'', JNull), (py_str ''id'', JInt 7)],
             JDict [(py_str ''full_name'', JStr (py_str ''c/d''))],
             JInt 4, JDict [(py_str ''name'', JNull)]])
   = Inr [JDict [(py_str ''full_name'', JStr (py_str ''a/b''))],
          JDict [(py_str ''full_name'', JNull), (py_str ''id'', JInt 7)],
          JDict [(py_str ''full_name'', JStr (py_str ''c/d''))],
          JInt 4, JDict [(py_str ''name'', JNull)]]
   \<and> extract_repos_from_response example_parse
     (JList [JDict [(py_str ''full_name'', JNull)], JDict [(py_str ''full_name'', JNull)],
             JDict [(py_str ''name'', JNull)]])
   = Inr []
   \<and> extract_repos_from_response example_parse
     (JList [JDict [(py_str ''full_name'', JNull)], JDict [(py_str ''full_name'', JNull)], JInt 4])
   = Inr []
   \<and> extract_repos_from_response example_parse (JList [JDict [(py_str ''name'', JNull)]]) = Inr []
   \<and> extract_repos_from_response example_parse (JList []) = Inr []"
  using extract_repos_list_first_three [of example_parse
      "[JDict [(py_str ''full_name'', JStr (py_str ''a/b''))],
        JDict [(py_str ''full_name'', JNull), (py_str ''id'', JInt 7)],
        JDict [(py_str ''full_name'', JStr (py_str ''c/d''))],
        JInt 4, JDict [(py_str ''name'', JNull)]]"]
    extract_repos_list_first_three [of example_parse
      "[JDict [(py_str ''full_name'', JNull)], JDict [(py_str ''full_name'', JNull)],
        JDict [(py_str ''name'', JNull)]]"]
    extract_repos_list_first_three [of example_parse
      "[JDict [(py_str ''full_name'', JNull)], JDict [(py_str ''full_name'', JNull)], JInt 4]"]
    extract_repos_list_first_three [of example_parse "[JDict [(py_str ''name'', JNull)]]"]
    extract_repos_list_first_three [of example_parse "[]"]
  by simp

section \<open>Properties of the decoders\<close>

subsection \<open>Rendering\<close>

lemma render_no_tags:
  "scan_tags 0 m = [] \<Longrightarrow> console_print norm_style literal_ok m = Inr ()"
  by (simp add: console_print_def markup_error_def)

lemma render_open_close:
  assumes "scan_tags 0 m = [t, py_str ''/'']"
    and "t \<noteq> []" and "hd t \<noteq> 47" and "61 \<notin> set t"
  shows "console_print norm_style literal_ok m = Inr ()"
proof -
  have tw: "takeWhile (\<lambda>c. c \<noteq> 61) t = t"
    by (rule takeWhile_eq_all_conv [THEN iffD2]) (use assms(4) in auto)
  have p: "partition_equals t = (t, None)"
    unfolding partition_equals_def Let_def tw by simp
  have o: "\<not> startswith t [47]"
    using assms(2,3) by (cases t) (auto simp: startswith_def)
  have c: "partition_equals (py_str ''/'') = (py_str ''/'', None)"
    "startswith (py_str ''/'') [47]" "py_strip (tl (py_str ''/'')) = []"
    by (simp_all add: partition_equals_def startswith_def py_str_def py_strip_def)
  show ?thesis
    by (simp add: console_print_def markup_error_def assms(1) p o c handler_fails_def)
qed

lemma render_double_close:
  assumes "scan_tags 0 m = [py_str ''dim'', py_str ''/'', py_str ''/'']"
  shows "console_print norm_style literal_ok m = Inl MarkupError"
proof -
  have p: "partition_equals (py_str ''dim'') = (py_str ''dim'', None)"
    "\<not> startswith (py_str ''dim'') [47]"
    by (simp_all add: partition_equals_def startswith_def py_str_def)
  have c: "partition_equals (py_str ''/'') = (py_str ''/'', None)"
    "startswith (py_str ''/'') [47]" "py_strip (tl (py_str ''/'')) = []"
    by (simp_all add: partition_equals_def startswith_def py_str_def py_strip_def)
  show ?thesis
    by (simp add: console_print_def markup_error_def assms p c handler_fails_def)
qed

lemma render_lone_close:
  assumes "scan_tags 0 m = [py_str ''/'']"
  shows "console_print norm_style literal_ok m = Inl MarkupError"
proof -
  have c: "partition_equals (py_str ''/'') = (py_str ''/'', None)"
    "startswith (py_str ''/'') [47]" "py_strip (tl (py_str ''/'')) = []"
    by (simp_all add: partition_equals_def startswith_def py_str_def py_strip_def)
  show ?thesis
    by (simp add: console_print_def markup_error_def assms c)
qed

lemma render_dim:
  "scan_tags 0 m = [py_str ''dim'', py_str ''/''] \<Longrightarrow> console_print norm_style literal_ok m = Inr ()"
  by (rule render_open_close, assumption) (simp_all add: py_str_def)

lemma render_bold_red:
  "scan_tags 0 m = [py_str ''bold red'', py_str ''/'']
   \<Longrightarrow> console_print norm_style literal_ok m = Inr ()"
  by (rule render_open_close, assumption) (simp_all add: py_str_def)

lemma render_bold_yellow:
  "scan_tags 0 m = [py_str ''bold yellow'', py_str ''/'']
   \<Longrightarrow> console_print norm_style literal_ok m = Inr ()"
  by (rule render_open_close, assumption) (simp_all add: py_str_def)

text \<open>The fixed texts the function prints render, whatever the two library parameters.\<close>

lemma fixed_prints_scan:
  \<open>scan_tags 0 (py_str ''[bold red]Failed to fetch file[/]'') = [py_str ''bold red'', py_str ''/'']\<close>
  \<open>scan_tags 0 (py_str ''[bold red]Invalid file result response[/]'') = [py_str ''bold red'', py_str ''/'']\<close>
  \<open>scan_tags 0 (py_str ''[dim]Successfully extracted content using regex[/]'') = [py_str ''dim'', py_str ''/'']\<close>
  \<open>scan_tags 0 (py_str ''[dim]Regex approach failed, trying JSON parsing methods...[/]'') = [py_str ''dim'', py_str ''/'']\<close>
  \<open>scan_tags 0 (py_str ''[bold yellow]Could not extract file content from response[/]'') = [py_str ''bold yellow'', py_str ''/'']\<close>
  \<open>scan_tags 0 (py_str ''[dim]Response structure (truncated):[/]'') = [py_str ''dim'', py_str ''/'']\<close>
  by code_simp+

lemma fixed_prints_render:
  \<open>console_print norm_style literal_ok (py_str ''[bold red]Failed to fetch file[/]'') = Inr ()\<close>
  \<open>console_print norm_style literal_ok (py_str ''[bold red]Invalid file result response[/]'') = Inr ()\<close>
  \<open>console_print norm_style literal_ok (py_str ''[dim]Successfully extracted content using regex[/]'') = Inr ()\<close>
  \<open>console_print norm_style literal_ok (py_str ''[dim]Regex approach failed, trying JSON parsing methods...[/]'') = Inr ()\<close>
  \<open>console_print norm_style literal_ok (py_str ''[bold yellow]Could not extract file content from response[/]'') = Inr ()\<close>
  \<open>console_print norm_style literal_ok (py_str ''[dim]Response structure (truncated):[/]'') = Inr ()\<close>
  by (rule render_dim render_bold_red render_bold_yellow, rule fixed_prints_scan)+

subsection \<open>Decoding\<close>

lemma content_list_Some:
  "content_list env = Some items \<longleftrightarrow> dict_get env (py_str ''content'') = Some (JList items)"
  by (auto simp: content_list_def split: option.splits json.splits)

lemma format1_list:
  "dict_get env (py_str ''content'') = Some (JList items) \<Longrightarrow> format1 env cur = cur"
  by (simp add: format1_def)

text \<open>
  When \<^verbatim>\<open>content\<close> is a list, format 1 is entered and does nothing, and no later format
  is tried: the result is what the pattern approach left.
\<close>

lemma decode_content_list:
  assumes "content_list env = Some items"
  shows "decode_file_content parse env = Inr (regex_items items)"
proof -
  from assms have "dict_get env (py_str ''content'') = Some (JList items)"
    by (simp add: content_list_Some)
  with assms show ?thesis
    by (simp add: decode_file_content_def regex_phase_def Let_def format1_list)
qed

lemma readme_content_list:
  assumes "content_list env = Some items"
  shows "readme_decoded_content parse env = regex_items items"
proof -
  from assms have "dict_get env (py_str ''content'') = Some (JList items)"
    by (simp add: content_list_Some)
  with assms show ?thesis
    by (simp add: readme_decoded_content_def regex_phase_def Let_def format1_list)
qed

lemma regex_item_hello:
  \<open>regex_item (JDict [(py_str ''text'', JStr (py_str ''{"content": "SGVsbG8="}''))])
   = Some (py_str ''Hello'')\<close>
  by code_simp

lemma search_hello:
  \<open>re_search_content (JStr (py_str ''{"content": "SGVsbG8="}'')) = Inr (Some (py_str ''SGVsbG8=''))\<close>
  by code_simp

lemma regex_item_escaped:
  \<open>regex_item (JDict [(py_str ''text'',
      JStr (py_str ''{"content":"SGVs'' @ escaped_newline @ py_str ''bG8='' @ escaped_newline @ py_str ''"}''))])
   = Some (py_str ''Hello'')\<close>
  by code_simp

lemma debug_scan_hello:
  \<open>scan_tags 0 (debug_markup (JDict [(py_str ''content'',
        JList [JDict [(py_str ''text'', JStr (py_str ''{"content": "SGVsbG8="}''))]])]))
   = [py_str ''dim'', py_str ''/'']\<close>
  by code_simp

lemma debug_scan_escaped:
  \<open>scan_tags 0 (debug_markup (JDict [(py_str ''content'',
        JList [JDict [(py_str ''text'',
          JStr (py_str ''{"content":"SGVs'' @ escaped_newline @ py_str ''bG8='' @ escaped_newline @ py_str ''"}''))]])]))
   = [py_str ''dim'', py_str ''/'']\<close>
  by code_simp

lemma hello_not_empty: "\<not> py_not (Some (py_str ''Hello''))"
  by (simp add: py_not_def py_str_def)

text \<open>
  Claim C7. On \<^verbatim>\<open>{"content": [{"text": "{\"content\": \"SGVsbG8=\"}"}]}\<close> the result is
  \<^verbatim>\<open>"Hello"\<close>: the debug print renders, the pattern finds the group \<^verbatim>\<open>SGVsbG8=\<close> in the
  text, and the group decodes to \<^verbatim>\<open>Hello\<close>. Backslash-n sequences inside the group are
  removed before decoding, as the second envelope shows.
\<close>

theorem extract_file_content_hello:
  \<open>file_content_of_result parse norm_style literal_ok
     (JDict [(py_str ''content'',
        JList [JDict [(py_str ''text'', JStr (py_str ''{"content": "SGVsbG8="}''))]])])
   = Inr (Some (py_str ''Hello''))
   \<and> re_search_content (JStr (py_str ''{"content": "SGVsbG8="}'')) = Inr (Some (py_str ''SGVsbG8=''))
   \<and> file_content_of_result parse norm_style literal_ok
     (JDict [(py_str ''content'',
        JList [JDict [(py_str ''text'',
          JStr (py_str ''{"content":"SGVs'' @ escaped_newline @ py_str ''bG8='' @ escaped_newline @ py_str ''"}''))]])])
   = Inr (Some (py_str ''Hello''))\<close>
  by (simp add: file_content_of_result_def render_dim [OF debug_scan_hello]
      render_dim [OF debug_scan_escaped] decode_content_list content_list_def dict_get_def
      regex_item_hello search_hello regex_item_escaped hello_not_empty)

lemma regex_item_title:
  \<open>regex_item (JDict [(py_str ''text'', JStr (py_str ''# Title\<newline>Body''))]) = None\<close>
  by code_simp

lemma debug_scan_title:
  \<open>scan_tags 0 (debug_markup (JDict [(py_str ''content'',
        JList [JDict [(py_str ''text'', JStr (py_str ''# Title\<newline>Body''))]])]))
   = [py_str ''dim'', py_str ''/'']\<close>
  by code_simp

lemma structure_scan_title:
  \<open>scan_tags 0 (structure_markup (JDict [(py_str ''content'',
        JList [JDict [(py_str ''text'', JStr (py_str ''# Title\<newline>Body''))]])]))
   = []\<close>
  by code_simp

text \<open>
  Claim C2. On \<^verbatim>\<open>{"content": [{"text": "# Title\nBody"}]}\<close> the raw text should be
  returned. \<^verbatim>\<open>extract_file_content\<close> has no heading test at all, and in
  \<^verbatim>\<open>get_readme_content\<close> the branch that has it (format 3) stands behind format 1, whose
  test \<^verbatim>\<open>"content" in result\<close> already holds: both give \<^verbatim>\<open>None\<close>.
\<close>

theorem heading_text_not_returned:
  \<open>file_content_of_result parse norm_style literal_ok
     (JDict [(py_str ''content'',
        JList [JDict [(py_str ''text'', JStr (py_str ''# Title\<newline>Body''))]])])
   = Inr None
   \<and> readme_decoded_content parse
     (JDict [(py_str ''content'',
        JList [JDict [(py_str ''text'', JStr (py_str ''# Title\<newline>Body''))]])])
   = None\<close>
  by (simp add: file_content_of_result_def render_dim [OF debug_scan_title]
      render_no_tags [OF structure_scan_title] decode_content_list readme_content_list
      content_list_def dict_get_def regex_item_title py_not_def)

lemma clean_title:
  \<open>clean_text (JStr (py_str ''# Title\<newline>Body'')) = Inr (py_str ''# TitleBody'')\<close>
  by code_simp

lemma markdown_title:
  \<open>markdown_handler (JStr (py_str ''# Title\<newline>Body'')) = Some (py_str ''# Title\<newline>Body'')\<close>
  by code_simp

text \<open>
  The loop of format 3 itself would take the text: it is the chain of \<^verbatim>\<open>elif\<close> that never
  reaches it.
\<close>

lemma nested_items_heading:
  assumes \<open>parse (py_str ''# TitleBody'') = Inl e\<close>
  shows \<open>nested_items parse [JDict [(py_str ''text'', JStr (py_str ''# Title\<newline>Body''))]]
         = Some (py_str ''# Title\<newline>Body'')\<close>
  using assms
  by (simp add: dict_get_def nested_item_text_def clean_title json_loads_def markdown_title)

subsection \<open>Where the function raises\<close>

lemma debug_scan_note:
  \<open>scan_tags 0 (debug_markup (JDict [(py_str ''note'', JStr (py_str ''[/]''))]))
   = [py_str ''dim'', py_str ''/'', py_str ''/'']\<close>
  by code_simp

lemma debug_scan_content_note:
  \<open>scan_tags 0 (debug_markup (JDict [(py_str ''content'', JStr (py_str ''SGk='')),
      (py_str ''note'', JStr (py_str ''[/]''))]))
   = [py_str ''dim'', py_str ''/'', py_str ''/'']\<close>
  by code_simp

lemma debug_scan_details:
  \<open>scan_tags 0 (debug_markup (JDict [(py_str ''content'',
      JList [JDict [(py_str ''text'', JStr (py_str ''see [/] for details''))]])]))
   = [py_str ''dim'', py_str ''/'', py_str ''/'']\<close>
  by code_simp

text \<open>
  Claim C8. A mapping with none of the keys \<^verbatim>\<open>items\<close>, \<^verbatim>\<open>repositories\<close>, \<^verbatim>\<open>content\<close>,
  \<^verbatim>\<open>data\<close> should give the absent text, not a raised fault. On \<^verbatim>\<open>{"note": "[/]"}\<close> the
  debug print of line 611 raises \<^verbatim>\<open>MarkupError\<close>: the dump of the result is printed as
  console markup, and its \<^verbatim>\<open>[/]\<close> closes the \<^verbatim>\<open>[dim]\<close> of the message, which leaves the
  final \<^verbatim>\<open>[/]\<close> nothing to close.
\<close>

theorem nothing_found_raises:
  \<open>file_content_of_result parse norm_style literal_ok
     (JDict [(py_str ''note'', JStr (py_str ''[/]''))]) = Inl MarkupError\<close>
  by (simp add: file_content_of_result_def render_double_close [OF debug_scan_note])

text \<open>
  Claim C4. A mapping whose \<^verbatim>\<open>content\<close> is the base64 text of a string should decode to
  that string. On \<^verbatim>\<open>{"content": "SGk=", "note": "[/]"}\<close> (\<^verbatim>\<open>SGk=\<close> encodes \<^verbatim>\<open>Hi\<close>) the debug
  print of line 611 raises \<^verbatim>\<open>MarkupError\<close> before anything is decoded.
\<close>

theorem roundtrip_raises:
  \<open>file_content_of_result parse norm_style literal_ok
     (JDict [(py_str ''content'', JStr (py_str ''SGk='')), (py_str ''note'', JStr (py_str ''[/]''))])
   = Inl MarkupError\<close>
  by (simp add: file_content_of_result_def render_double_close [OF debug_scan_content_note])

lemma py_replace_absent:
  assumes "old \<noteq> []" and "hd old \<notin> set s"
  shows "py_replace old new s = s"
  using assms
proof (induction s)
  case Nil
  then show ?case by simp
next
  case (Cons c cs)
  then have "\<not> startswith (c # cs) old"
    by (cases old) (auto simp: startswith_def)
  with Cons show ?case by simp
qed

lemma py_strip_id:
  assumes "s \<noteq> []" and "\<not> py_isspace (hd s)" and "\<not> py_isspace (last s)"
  shows "py_strip s = s"
proof -
  have "dropWhile py_isspace s = s"
    using assms(1,2) by (cases s) simp_all
  moreover have "dropWhile py_isspace (rev s) = rev s"
    using assms(1,3) by (cases "rev s") (simp_all add: last_rev [symmetric] hd_rev)
  ultimately show ?thesis
    by (simp add: py_strip_def)
qed

lemma huge_integer_text_set: "set huge_integer_text = {91, 57, 93}"
  by (auto simp: huge_integer_text_def)

lemma clean_huge: "clean_text (JStr huge_integer_text) = Inr huge_integer_text"
proof -
  have a: "py_replace [10] [] huge_integer_text = huge_integer_text"
    by (rule py_replace_absent) (simp_all add: huge_integer_text_set)
  have b: "py_replace escaped_newline [] huge_integer_text = huge_integer_text"
    by (rule py_replace_absent) (simp_all add: huge_integer_text_set escaped_newline_def)
  have c: "py_strip huge_integer_text = huge_integer_text"
    by (rule py_strip_id) (simp_all add: huge_integer_text_def py_isspace_def)
  show ?thesis
    by (simp add: clean_text_def a b c)
qed

lemma decode_huge:
  "decode_file_content example_parse (JList [JDict [(py_str ''text'', JStr huge_integer_text)]])
   = Inl ValueError"
proof -
  have s: "startswith huge_integer_text (py_str ''['')"
    by (simp add: startswith_def huge_integer_text_def py_str_def)
  have t: "decode_item_text example_parse (JStr huge_integer_text) = Inl ValueError"
    by (simp add: decode_item_text_def clean_huge json_loads_def example_parse_simps)
  have h: "file_handler example_parse (JStr huge_integer_text) = Inl ValueError"
    by (simp add: file_handler_def s json_loads_def example_parse_simps)
  show ?thesis
    by (simp add: decode_file_content_def regex_phase_def content_list_def dict_get_def
        py_not_def t h)
qed

lemma concat_replicate_single: "concat (replicate n [x]) = replicate n x"
  by (induction n) simp_all

lemma newline_indent_simps:
  "newline_indent 0 = [10]"
  "newline_indent (Suc 0) = [10, 32, 32]"
  "newline_indent (Suc (Suc 0)) = [10, 32, 32, 32, 32]"
  by (simp_all add: newline_indent_def eval_nat_numeral)

lemma dump_huge:
  \<open>json_dumps (JList [JDict [(py_str ''text'', JStr huge_integer_text)]])
   = py_str ''[\<newline>  {\<newline>    "text": "['' @ replicate 4301 57 @ py_str '']"\<newline>  }\<newline>]''\<close>
proof -
  have "concat (map escape_char huge_integer_text) = huge_integer_text"
    by (simp add: huge_integer_text_def escape_char_def concat_replicate_single)
  then show ?thesis
    by (simp add: json_dumps_def encode_basestring_ascii_def newline_indent_simps
        huge_integer_text_def py_str_def escape_char_def)
qed

lemma match_tag_digit: "match_tag (57 # cs) = None"
  by (cases cs) (simp_all add: match_tag_def)

lemma scan_tags_digits: "scan_tags 0 (replicate n 57 @ rest) = scan_tags 0 rest"
  by (induction n) (simp_all add: match_tag_digit)

lemma take_huge_dump:
  \<open>take 300 (json_dumps (JList [JDict [(py_str ''text'', JStr huge_integer_text)]]))
   = py_str ''[\<newline>  {\<newline>    "text": "['' @ replicate 280 57\<close>
  unfolding dump_huge by (simp add: py_str_def)


lemma match_tag_plain: "c \<noteq> 92 \<Longrightarrow> c \<noteq> 91 \<Longrightarrow> match_tag (c # cs) = None"
  by (cases cs) (simp_all add: match_tag_def)

lemma match_tag_no_start: "\<not> tag_start c0 \<Longrightarrow> match_tag (91 # c0 # cs) = None"
  by (simp add: match_tag_def)

lemma match_tag_dim: "match_tag (91 # 100 # 105 # 109 # 93 # cs) = Some (0, [100, 105, 109], 5)"
  by (simp add: match_tag_def tag_start_def)

lemma debug_scan_huge:
  "scan_tags 0 (debug_markup (JList [JDict [(py_str ''text'', JStr huge_integer_text)]]))
   = [py_str ''dim'', py_str ''/'']"
proof -
  have r: "replicate 280 (57::nat) = 57 # replicate 279 57"
    using replicate_Suc [of 279 "57::nat"] by simp
  have t: "match_tag [91, 47, 93] = Some (0, [47], 3)"
    by (simp add: match_tag_def tag_start_def)
  show ?thesis
    unfolding debug_markup_def take_huge_dump
    by (simp add: py_str_def r match_tag_plain match_tag_no_start match_tag_dim tag_start_def
        scan_tags_digits t)
qed

text \<open>
  Claim C3. No decoded JSON value should make the extraction raise. Two envelopes make
  \<^verbatim>\<open>extract_file_content\<close> raise: a \<^verbatim>\<open>content\<close> list whose text holds \<^verbatim>\<open>[/]\<close> (the debug
  print of line 611 raises \<^verbatim>\<open>MarkupError\<close>), and a list with a text that is an array of
  one integer of 4301 digits (\<^verbatim>\<open>json.loads\<close> raises \<^verbatim>\<open>ValueError\<close>; the handler of format 2
  parses the text again under \<^verbatim>\<open>except json.JSONDecodeError\<close>, which does not catch it).
\<close>

theorem extract_file_content_raises:
  \<open>file_content_of_result parse norm_style literal_ok
     (JDict [(py_str ''content'',
        JList [JDict [(py_str ''text'', JStr (py_str ''see [/] for details''))]])])
   = Inl MarkupError
   \<and> file_content_of_result example_parse norm_style literal_ok
     (JList [JDict [(py_str ''text'', JStr huge_integer_text)]])
   = Inl ValueError\<close>
  by (simp add: file_content_of_result_def render_double_close [OF debug_scan_details]
      render_dim [OF debug_scan_huge] decode_huge)

section \<open>What holds when the prints render\<close>

lemma extract_repos_returns: "\<exists>r. extract_repos_from_response parse env = Inr r"
  by (simp add: extract_repos_from_response_def split: json.splits option.splits)

text \<open>
  The head of \<^verbatim>\<open>extract_file_content\<close> hands the \<^verbatim>\<open>result\<close> of the response line to the
  decoder; a response line that is no container makes the head itself raise.
\<close>

lemma extract_file_content_single:
  "extract_file_content parse norm_style literal_ok (Some [JDict [(py_str ''result'', result)]])
   = file_content_of_result parse norm_style literal_ok result"
  by (simp add: extract_file_content_def result_in_def)

lemma extract_file_content_number_line:
  "extract_file_content parse norm_style literal_ok (Some [JInt 5]) = Inl TypeError"
  by (simp add: extract_file_content_def result_in_def)

text \<open>
  With a parser that raises nothing but \<^verbatim>\<open>json.JSONDecodeError\<close> the decoding steps
  return.
\<close>

lemma file_handler_returns:
  assumes "\<forall>s e. parse s = Inl e \<longrightarrow> e = JSONDecodeError"
  shows "\<exists>r. file_handler parse t = Inr r"
proof (cases t)
  case (JStr s)
  show ?thesis
  proof (cases "parse s")
    case (Inl e)
    with assms have "e = JSONDecodeError" by simp
    with Inl JStr show ?thesis by (simp add: file_handler_def json_loads_def)
  next
    case (Inr v)
    with JStr show ?thesis by (simp add: file_handler_def json_loads_def)
  qed
qed (simp_all add: file_handler_def)

lemma file_items_returns:
  assumes "\<forall>s e. parse s = Inl e \<longrightarrow> e = JSONDecodeError"
  shows "\<exists>r. file_items parse items = Inr r"
proof (induction items)
  case Nil
  show ?case by simp
next
  case (Cons item rest)
  show ?case
  proof (cases "dict_get item (py_str ''text'')")
    case None
    with Cons show ?thesis by simp
  next
    case (Some t)
    obtain h where h: "file_handler parse t = Inr h"
      using file_handler_returns [OF assms] by blast
    from Some h Cons show ?thesis
      by (auto split: sum.splits option.splits)
  qed
qed

lemma decode_file_content_returns:
  assumes "\<forall>s e. parse s = Inl e \<longrightarrow> e = JSONDecodeError"
  shows "\<exists>r. decode_file_content parse env = Inr r"
proof (cases "py_not (regex_phase env) \<and> dict_get env (py_str ''content'') = None")
  case False
  then show ?thesis by (auto simp: decode_file_content_def Let_def)
next
  case True
  show ?thesis
  proof (cases env)
    case (JList ys)
    show ?thesis
    proof (cases ys)
      case Nil
      with True JList show ?thesis by (simp add: decode_file_content_def Let_def)
    next
      case (Cons x xs)
      obtain r where "file_items parse (x # xs) = Inr r"
        using file_items_returns [OF assms] by blast
      with True JList Cons show ?thesis
        by (cases r) (simp_all add: decode_file_content_def Let_def)
    qed
  qed (use True in \<open>simp_all add: decode_file_content_def Let_def\<close>)
qed

lemma file_content_returns_when_prints_render:
  assumes "\<forall>s e. parse s = Inl e \<longrightarrow> e = JSONDecodeError"
    and "console_print norm_style literal_ok (debug_markup env) = Inr ()"
    and "console_print norm_style literal_ok (structure_markup env) = Inr ()"
  shows "\<exists>r. file_content_of_result parse norm_style literal_ok env = Inr r"
proof -
  obtain r where "decode_file_content parse env = Inr r"
    using decode_file_content_returns [OF assms(1)] by blast
  with assms(2,3) show ?thesis
    by (simp add: file_content_of_result_def)
qed

text \<open>
  A mapping without the four keys gives no records and, when its dump renders, the
  absent text; so does the empty sequence, whose dump \<^verbatim>\<open>[]\<close> always renders.
\<close>

lemma nothing_found_when_prints_render:
  assumes "py_str ''items'' \<notin> fst ` set d"
    and "py_str ''repositories'' \<notin> fst ` set d"
    and "py_str ''content'' \<notin> fst ` set d"
    and "py_str ''data'' \<notin> fst ` set d"
    and "console_print norm_style literal_ok (debug_markup (JDict d)) = Inr ()"
    and "console_print norm_style literal_ok (structure_markup (JDict d)) = Inr ()"
  shows "extract_repos_from_response parse (JDict d) = Inr []
     \<and> file_content_of_result parse norm_style literal_ok (JDict d) = Inr None
     \<and> readme_decoded_content parse (JDict d) = None"
proof -
  from assms(1-4) have none: "map_of d (py_str ''items'') = None"
      "map_of d (py_str ''repositories'') = None"
      "map_of d (py_str ''content'') = None" "map_of d (py_str ''data'') = None"
    by (simp_all add: map_of_eq_None_iff)
  have "extract_repos_from_response parse (JDict d) = Inr []"
    using none by (simp add: extract_repos_from_response_def list_field_def)
  moreover have "decode_file_content parse (JDict d) = Inr None"
    using none
    by (simp add: decode_file_content_def regex_phase_def content_list_def dict_get_def py_not_def)
  then have "file_content_of_result parse norm_style literal_ok (JDict d) = Inr None"
    using assms(5,6) by (simp add: file_content_of_result_def py_not_def)
  moreover have "readme_decoded_content parse (JDict d) = None"
    using none
    by (simp add: readme_decoded_content_def regex_phase_def content_list_def dict_get_def py_not_def)
  ultimately show ?thesis by simp
qed

lemma empty_sequence_scan:
  "scan_tags 0 (debug_markup (JList [])) = [py_str ''dim'', py_str ''/'']"
  "scan_tags 0 (structure_markup (JList [])) = []"
  by code_simp+

lemma nothing_found_empty_sequence:
  "extract_repos_from_response parse (JList []) = Inr []
   \<and> file_content_of_result parse norm_style literal_ok (JList []) = Inr None
   \<and> readme_decoded_content parse (JList []) = None"
proof -
  have "decode_file_content parse (JList []) = Inr None"
    by (simp add: decode_file_content_def regex_phase_def content_list_def dict_get_def py_not_def)
  then have "file_content_of_result parse norm_style literal_ok (JList []) = Inr None"
    by (simp add: file_content_of_result_def render_dim [OF empty_sequence_scan(1)]
        render_no_tags [OF empty_sequence_scan(2)] py_not_def)
  moreover have "extract_repos_from_response parse (JList []) = Inr []"
    by (simp add: extract_repos_from_response_def)
  moreover have "readme_decoded_content parse (JList []) = None"
    by (simp add: readme_decoded_content_def regex_phase_def content_list_def dict_get_def py_not_def)
  ultimately show ?thesis by simp
qed

section \<open>Decoding after encoding\<close>

subsection \<open>Base64\<close>

lemma b64_value_char: "v < 64 \<Longrightarrow> b64_value (b64_char v) = Some v"
  unfolding b64_value_def b64_char_def by (auto split: if_splits)

lemma b64_char_not_pad: "v < 64 \<Longrightarrow> b64_char v \<noteq> 61"
  unfolding b64_char_def by (auto split: if_splits)

lemma b64_char_ascii: "v < 64 \<Longrightarrow> b64_char v < 128"
  unfolding b64_char_def by (auto split: if_splits)

lemma a2b_data0:
  "v < 64 \<Longrightarrow> a2b_base64 0 l p (b64_char v # cs) = a2b_base64 1 v 0 cs"
  by (simp add: b64_value_char b64_char_not_pad)

lemma a2b_data1:
  "v < 64 \<Longrightarrow> a2b_base64 1 l p (b64_char v # cs)
     = emit ((l * 4 + v div 16) mod 256) (a2b_base64 2 (v mod 16) 0 cs)"
  by (simp add: b64_value_char b64_char_not_pad)

lemma a2b_data2:
  "v < 64 \<Longrightarrow> a2b_base64 2 l p (b64_char v # cs)
     = emit ((l * 16 + v div 4) mod 256) (a2b_base64 3 (v mod 4) 0 cs)"
  by (simp add: b64_value_char b64_char_not_pad)

lemma a2b_data3:
  "v < 64 \<Longrightarrow> a2b_base64 3 l p (b64_char v # cs)
     = emit ((l * 64 + v) mod 256) (a2b_base64 0 0 0 cs)"
  by (simp add: b64_value_char b64_char_not_pad)

lemma a2b_quad:
  assumes "a < 256" "b < 256" "c < 256"
  shows "a2b_base64 0 0 0 (b64_char (a div 4) # b64_char (a mod 4 * 16 + b div 16)
       # b64_char (b mod 16 * 4 + c div 64) # b64_char (c mod 64) # cs)
     = emit a (emit b (emit c (a2b_base64 0 0 0 cs)))"
proof -
  have v: "a div 4 < 64" "a mod 4 * 16 + b div 16 < 64" "b mod 16 * 4 + c div 64 < 64" "c mod 64 < 64"
    using assms by auto
  have e1: "(a div 4 * 4 + (a mod 4 * 16 + b div 16) div 16) mod 256 = a"
    using assms by auto
  have e2: "((a mod 4 * 16 + b div 16) mod 16 * 16 + (b mod 16 * 4 + c div 64) div 4) mod 256 = b"
    using assms by auto
  have e3: "((b mod 16 * 4 + c div 64) mod 4 * 64 + c mod 64) mod 256 = c"
    using assms by auto
  show ?thesis
    by (simp only: a2b_data0 [OF v(1)] a2b_data1 [OF v(2)] a2b_data2 [OF v(3)] a2b_data3 [OF v(4)]
        e1 e2 e3)
qed

lemma a2b_pad_at_3: "a2b_base64 3 l p (61 # cs) = Inr []"
  by simp

lemma a2b_pad_at_2: "a2b_base64 2 l 0 (61 # 61 # cs) = Inr []"
  by simp

lemma a2b_one:
  assumes "a < 256"
  shows "a2b_base64 0 0 0 [b64_char (a div 4), b64_char (a mod 4 * 16), 61, 61] = Inr [a]"
proof -
  have v: "a div 4 < 64" "a mod 4 * 16 < 64"
    using assms by auto
  have e1: "(a div 4 * 4 + a mod 4 * 16 div 16) mod 256 = a"
    using assms by auto
  show ?thesis
    by (simp only: a2b_data0 [OF v(1)] a2b_data1 [OF v(2)] a2b_pad_at_2 e1) (simp add: emit_def)
qed

lemma a2b_two:
  assumes "a < 256" "b < 256"
  shows "a2b_base64 0 0 0
      [b64_char (a div 4), b64_char (a mod 4 * 16 + b div 16), b64_char (b mod 16 * 4), 61]
     = Inr [a, b]"
proof -
  have v: "a div 4 < 64" "a mod 4 * 16 + b div 16 < 64" "b mod 16 * 4 < 64"
    using assms by auto
  have e1: "(a div 4 * 4 + (a mod 4 * 16 + b div 16) div 16) mod 256 = a"
    using assms by auto
  have e2: "((a mod 4 * 16 + b div 16) mod 16 * 16 + b mod 16 * 4 div 4) mod 256 = b"
    using assms by auto
  show ?thesis
    by (simp only: a2b_data0 [OF v(1)] a2b_data1 [OF v(2)] a2b_data2 [OF v(3)] a2b_pad_at_3 e1 e2)
       (simp add: emit_def)
qed

lemma b64_roundtrip:
  "\<forall>x\<in>set bs. x < 256 \<Longrightarrow> a2b_base64 0 0 0 (b64encode bs) = Inr bs"
proof (induction bs rule: b64encode.induct)
  case 1
  show ?case by simp
next
  case (2 a)
  then show ?case by (simp only: b64encode.simps a2b_one list.set_intros)
next
  case (3 a b)
  then show ?case by (simp add: a2b_two del: a2b_base64.simps)
next
  case (4 a b c bs)
  then have "a < 256" "b < 256" "c < 256" and IH: "a2b_base64 0 0 0 (b64encode bs) = Inr bs"
    by simp_all
  then show ?case
    by (simp only: b64encode.simps a2b_quad) (simp add: emit_def)
qed

lemma b64encode_ascii:
  "\<forall>x\<in>set bs. x < 256 \<Longrightarrow> list_all (\<lambda>c. c < 128) (b64encode bs)"
proof (induction bs rule: b64encode.induct)
  case (4 a b c bs)
  then have "a < 256" "b < 256" "c < 256" by simp_all
  then have "a div 4 < 64" "a mod 4 * 16 + b div 16 < 64" "b mod 16 * 4 + c div 64 < 64" "c mod 64 < 64"
    by auto
  with 4 show ?case by (simp add: b64_char_ascii)
next
  case (3 a b)
  then have "a < 256" "b < 256" by simp_all
  then have "a div 4 < 64" "a mod 4 * 16 + b div 16 < 64" "b mod 16 * 4 < 64"
    by auto
  then show ?case by (simp add: b64_char_ascii)
next
  case (2 a)
  then have "a div 4 < 64" "a mod 4 * 16 < 64" by auto
  then show ?case by (simp add: b64_char_ascii)
qed simp




subsection \<open>UTF-8\<close>

lemma utf8_decode_ascii:
  "c < 128 \<Longrightarrow> utf8_decode (c # bs) = decoded c (utf8_decode bs)"
  by (cases bs rule: utf8_decode.cases) (simp_all add: decoded_def)

lemma utf8_decode_two:
  assumes "194 \<le> b0" "b0 < 224" "is_cont b1"
  shows "utf8_decode (b0 # b1 # bs) = decoded ((b0 - 192) * 64 + (b1 - 128)) (utf8_decode bs)"
  using assms by (cases bs rule: utf8_decode.cases) (simp_all add: decoded_def)



lemma split3: "(c::nat) div 4096 * 4096 + c div 64 mod 64 * 64 + c mod 64 = c"
proof -
  have d: "c div 4096 = c div 64 div 64"
    using div_mult2_eq [of c 64 64] by simp
  have "c div 64 div 64 * 64 + c div 64 mod 64 = c div 64"
    by (rule div_mult_mod_eq)
  then have "c div 4096 * 64 + c div 64 mod 64 = c div 64"
    by (simp only: d)
  then have "(c div 4096 * 64 + c div 64 mod 64) * 64 + c mod 64 = c"
    by (simp only: div_mult_mod_eq)
  then show ?thesis
    by (simp add: algebra_simps)
qed

lemma split4:
  "(c::nat) div 262144 * 262144 + c div 4096 mod 64 * 4096 + c div 64 mod 64 * 64 + c mod 64 = c"
proof -
  have d: "c div 262144 = c div 4096 div 64"
    using div_mult2_eq [of c 4096 64] by simp
  have "c div 4096 div 64 * 64 + c div 4096 mod 64 = c div 4096"
    by (rule div_mult_mod_eq)
  then have "c div 262144 * 64 + c div 4096 mod 64 = c div 4096"
    by (simp only: d)
  then have "(c div 262144 * 64 + c div 4096 mod 64) * 4096 + c div 64 mod 64 * 64 + c mod 64 = c"
    by (simp only: split3)
  then show ?thesis
    by (simp add: algebra_simps)
qed



lemma utf8_decode_three:
  assumes "224 \<le> b0" "b0 < 240" "is_cont b1" "is_cont b2"
    and "2048 \<le> (b0 - 224) * 4096 + (b1 - 128) * 64 + (b2 - 128)"
    and "\<not> (55296 \<le> (b0 - 224) * 4096 + (b1 - 128) * 64 + (b2 - 128)
           \<and> (b0 - 224) * 4096 + (b1 - 128) * 64 + (b2 - 128) < 57344)"
  shows "utf8_decode (b0 # b1 # b2 # bs)
     = decoded ((b0 - 224) * 4096 + (b1 - 128) * 64 + (b2 - 128)) (utf8_decode bs)"
proof -
  have n: "\<not> b0 < 128" "\<not> b0 < 224"
    using assms(1) by simp_all
  show ?thesis
  proof (cases bs)
    case Nil
    show ?thesis
      unfolding Nil utf8_decode.simps
      by (simp only: n assms if_True if_False simp_thms decoded_def sum.case)
  next
    case (Cons b3 r)
    show ?thesis
      unfolding Cons utf8_decode.simps
      by (simp only: n assms if_True if_False simp_thms)
  qed
qed


lemma utf8_decode_four:
  assumes "240 \<le> b0" "b0 < 245" "is_cont b1" "is_cont b2" "is_cont b3"
    and "65536 \<le> (b0 - 240) * 262144 + (b1 - 128) * 4096 + (b2 - 128) * 64 + (b3 - 128)"
    and "(b0 - 240) * 262144 + (b1 - 128) * 4096 + (b2 - 128) * 64 + (b3 - 128) < 1114112"
  shows "utf8_decode (b0 # b1 # b2 # b3 # bs)
     = decoded ((b0 - 240) * 262144 + (b1 - 128) * 4096 + (b2 - 128) * 64 + (b3 - 128))
         (utf8_decode bs)"
proof -
  have n: "\<not> b0 < 128" "\<not> b0 < 224" "\<not> b0 < 240"
    using assms(1) by simp_all
  show ?thesis
    unfolding utf8_decode.simps
    by (simp only: n assms if_True if_False simp_thms)
qed


lemma utf8_decode_encode_char:
  assumes "scalar_value c"
  shows "utf8_decode (utf8_encode_char c @ bs) = decoded c (utf8_decode bs)"
proof -
  have lt: "c < 1114112" and ns: "\<not> (55296 \<le> c \<and> c < 57344)"
    using assms by (auto simp: scalar_value_def)
  consider "c < 128" | "128 \<le> c" "c < 2048" | "2048 \<le> c" "c < 65536" | "65536 \<le> c"
    by linarith
  then show ?thesis
  proof cases
    case 1
    then show ?thesis by (simp add: utf8_encode_char_def utf8_decode_ascii)
  next
    case 2
    have enc: "utf8_encode_char c = [192 + c div 64, 128 + c mod 64]"
      using 2 by (simp add: utf8_encode_char_def)
    have b: "194 \<le> 192 + c div 64" "192 + c div 64 < 224"
      using 2 by simp_all
    have k: "is_cont (128 + c mod 64)"
      by (simp add: is_cont_def)
    have cp: "(192 + c div 64 - 192) * 64 + (128 + c mod 64 - 128) = c"
      by simp
    show ?thesis
      using utf8_decode_two [OF b k, of bs] by (simp only: enc cp append.simps)
  next
    case 3
    have enc: "utf8_encode_char c = [224 + c div 4096, 128 + c div 64 mod 64, 128 + c mod 64]"
      using 3 by (simp add: utf8_encode_char_def)
    have cp: "(224 + c div 4096 - 224) * 4096 + (128 + c div 64 mod 64 - 128) * 64
        + (128 + c mod 64 - 128) = c"
      using split3 [of c] by simp
    have b: "224 \<le> 224 + c div 4096" "224 + c div 4096 < 240"
      using 3 by simp_all
    have k: "is_cont (128 + c div 64 mod 64)" "is_cont (128 + c mod 64)"
      by (simp_all add: is_cont_def)
    have r: "2048 \<le> (224 + c div 4096 - 224) * 4096 + (128 + c div 64 mod 64 - 128) * 64
        + (128 + c mod 64 - 128)"
      "\<not> (55296 \<le> (224 + c div 4096 - 224) * 4096 + (128 + c div 64 mod 64 - 128) * 64
        + (128 + c mod 64 - 128)
         \<and> (224 + c div 4096 - 224) * 4096 + (128 + c div 64 mod 64 - 128) * 64
        + (128 + c mod 64 - 128) < 57344)"
      unfolding cp using 3 ns by simp_all
    show ?thesis
      using utf8_decode_three [OF b k r, of bs] by (simp only: enc cp append.simps)
  next
    case 4
    have enc: "utf8_encode_char c
        = [240 + c div 262144, 128 + c div 4096 mod 64, 128 + c div 64 mod 64, 128 + c mod 64]"
      using 4 by (simp add: utf8_encode_char_def)
    have cp: "(240 + c div 262144 - 240) * 262144 + (128 + c div 4096 mod 64 - 128) * 4096
        + (128 + c div 64 mod 64 - 128) * 64 + (128 + c mod 64 - 128) = c"
      using split4 [of c] by simp
    have b: "240 \<le> 240 + c div 262144" "240 + c div 262144 < 245"
      using lt by simp_all
    have k: "is_cont (128 + c div 4096 mod 64)" "is_cont (128 + c div 64 mod 64)"
      "is_cont (128 + c mod 64)"
      by (simp_all add: is_cont_def)
    have r: "65536 \<le> (240 + c div 262144 - 240) * 262144 + (128 + c div 4096 mod 64 - 128) * 4096
        + (128 + c div 64 mod 64 - 128) * 64 + (128 + c mod 64 - 128)"
      "(240 + c div 262144 - 240) * 262144 + (128 + c div 4096 mod 64 - 128) * 4096
        + (128 + c div 64 mod 64 - 128) * 64 + (128 + c mod 64 - 128) < 1114112"
      unfolding cp using 4 lt by simp_all
    show ?thesis
      using utf8_decode_four [OF b k r, of bs] by (simp only: enc cp append.simps)
  qed
qed

lemma utf8_roundtrip:
  "\<forall>c\<in>set s. scalar_value c \<Longrightarrow> utf8_decode (utf8_encode s) = Inr s"
proof (induction s)
  case Nil
  show ?case by (simp add: utf8_encode_def)
next
  case (Cons c s)
  then have "utf8_decode (utf8_encode s) = Inr s" and "scalar_value c"
    by simp_all
  moreover have "utf8_encode (c # s) = utf8_encode_char c @ utf8_encode s"
    by (simp add: utf8_encode_def)
  ultimately show ?case
    by (simp only: utf8_decode_encode_char decoded_def sum.case)
qed

lemma utf8_encode_char_bytes:
  assumes "scalar_value c"
  shows "\<forall>x\<in>set (utf8_encode_char c). x < 256"
proof -
  have lt: "c < 1114112" using assms by (simp add: scalar_value_def)
  have m: "x mod 64 < 256" for x :: nat
    using mod_less_divisor [of 64 x] by linarith
  have d: "c < 2048 \<Longrightarrow> 192 + c div 64 < 256" "c < 65536 \<Longrightarrow> 224 + c div 4096 < 256"
    "240 + c div 262144 < 256"
    using lt by simp_all
  have k: "128 + x mod 64 < 256" for x :: nat
    using mod_less_divisor [of 64 x] by linarith
  show ?thesis
    using d k by (simp add: utf8_encode_char_def)
qed

lemma utf8_encode_bytes:
  "\<forall>c\<in>set s. scalar_value c \<Longrightarrow> \<forall>x\<in>set (utf8_encode s). x < 256"
  using utf8_encode_char_bytes by (auto simp: utf8_encode_def)

subsection \<open>The round trip through format 1\<close>

lemma b64decode_utf8_encoded:
  assumes "\<forall>c\<in>set s. scalar_value c"
  shows "b64decode_utf8 (JStr (b64encode (utf8_encode s))) = Inr s"
proof -
  have bytes: "\<forall>x\<in>set (utf8_encode s). x < 256"
    using assms by (rule utf8_encode_bytes)
  then have "list_all (\<lambda>c. c < 128) (b64encode (utf8_encode s))"
    by (rule b64encode_ascii)
  moreover have "a2b_base64 0 0 0 (b64encode (utf8_encode s)) = Inr (utf8_encode s)"
    using bytes by (rule b64_roundtrip)
  moreover have "utf8_decode (utf8_encode s) = Inr s"
    using assms by (rule utf8_roundtrip)
  ultimately show ?thesis
    by (simp add: b64decode_utf8_def b64decode_def)
qed

text \<open>
  When the dump of the mapping renders, a \<^verbatim>\<open>content\<close> field that is the base64 text of
  the UTF-8 encoding of \<open>s\<close> is decoded to exactly \<open>s\<close>.
\<close>

lemma roundtrip_when_prints_render:
  assumes "\<forall>c\<in>set s. scalar_value c"
    and "map_of d (py_str ''content'') = Some (JStr (b64encode (utf8_encode s)))"
    and "console_print norm_style literal_ok (debug_markup (JDict d)) = Inr ()"
    and "console_print norm_style literal_ok (structure_markup (JDict d)) = Inr ()"
  shows "file_content_of_result parse norm_style literal_ok (JDict d) = Inr (Some s)
     \<and> readme_decoded_content parse (JDict d) = Some s"
proof -
  have dec: "b64decode_utf8 (JStr (b64encode (utf8_encode s))) = Inr s"
    using assms(1) by (rule b64decode_utf8_encoded)
  have get: "dict_get (JDict d) (py_str ''content'') = Some (JStr (b64encode (utf8_encode s)))"
    using assms(2) by (simp add: dict_get_def)
  then have rp: "regex_phase (JDict d) = None"
    by (simp add: regex_phase_def content_list_def)
  have f1: "format1 (JDict d) None = Some s"
    using get dec by (simp add: format1_def)
  have "decode_file_content parse (JDict d) = Inr (Some s)"
    using get f1 by (simp add: decode_file_content_def rp py_not_def)
  then have "file_content_of_result parse norm_style literal_ok (JDict d) = Inr (Some s)"
    using assms(3,4) by (simp add: file_content_of_result_def)
  moreover have "readme_decoded_content parse (JDict d) = Some s"
    using get f1 by (simp add: readme_decoded_content_def rp py_not_def)
  ultimately show ?thesis by simp
qed

end
